theory Spec2Isabelle
  imports Complex_Main "HOL-Library.Sublist" "HOL-Library.AList"
begin

section \<open>Python values\<close>

text \<open>
  A Python \<^verbatim>\<open>str\<close> is a sequence of Unicode code points, so it is modelled as a list of
  natural numbers: \<open>length\<close> and slicing count code points, as Python does.  ASCII
  literals of the source are written with \<open>u\<close>; the few non-ASCII characters of the
  source's messages are given by their code point.
\<close>

type_synonym pystr = "nat list"

definition u :: "string \<Rightarrow> pystr" where
  "u s = map of_char s"

text \<open>The operator \<^verbatim>\<open>needle in haystack\<close> on strings: contiguous substring.\<close>

definition py_in :: "pystr \<Rightarrow> pystr \<Rightarrow> bool" where
  "py_in needle haystack = sublist needle haystack"

text \<open>
  \<^verbatim>\<open>str.lower()\<close> and \<^verbatim>\<open>str.title()\<close> on the letters A-Z and a-z.  Every other code
  point is left as it is and counts as uncased: the Unicode case tables are outside the
  model.  \<^verbatim>\<open>title\<close> follows CPython: a character after a cased one is lowercased, any
  other character is uppercased.
\<close>

definition lower_cp :: "nat \<Rightarrow> nat" where
  "lower_cp c = (if 65 \<le> c \<and> c \<le> 90 then c + 32 else c)"

definition upper_cp :: "nat \<Rightarrow> nat" where
  "upper_cp c = (if 97 \<le> c \<and> c \<le> 122 then c - 32 else c)"

definition cased :: "nat \<Rightarrow> bool" where
  "cased c = ((65 \<le> c \<and> c \<le> 90) \<or> (97 \<le> c \<and> c \<le> 122))"

definition py_lower :: "pystr \<Rightarrow> pystr" where
  "py_lower s = map lower_cp s"

fun title_from :: "bool \<Rightarrow> pystr \<Rightarrow> pystr" where
  "title_from previous_is_cased [] = []"
| "title_from previous_is_cased (c # cs) =
     (if previous_is_cased then lower_cp c else upper_cp c) # title_from (cased c) cs"

definition py_title :: "pystr \<Rightarrow> pystr" where
  "py_title s = title_from False s"

text \<open>
  \<^verbatim>\<open>str.isspace\<close> of one character, which is also what \<^verbatim>\<open>\s\<close> matches in a \<^verbatim>\<open>str\<close>
  pattern: the code points U+0009-000D, U+001C-0020, U+0085, U+00A0, U+1680,
  U+2000-200A, U+2028, U+2029, U+202F, U+205F and U+3000.
\<close>

definition isspace :: "nat \<Rightarrow> bool" where
  "isspace c =
     ((9 \<le> c \<and> c \<le> 13) \<or> (28 \<le> c \<and> c \<le> 32) \<or> c = 133 \<or> c = 160 \<or> c = 5760
      \<or> (8192 \<le> c \<and> c \<le> 8202) \<or> c = 8232 \<or> c = 8233 \<or> c = 8239 \<or> c = 8287
      \<or> c = 12288)"

text \<open>\<^verbatim>\<open>str.strip()\<close>: whitespace removed at both ends.\<close>

definition py_strip :: "pystr \<Rightarrow> pystr" where
  "py_strip s = rev (dropWhile isspace (rev (dropWhile isspace s)))"

text \<open>\<^verbatim>\<open>text.replace(old, new)\<close> for one-character \<open>old\<close> and \<open>new\<close>.\<close>

definition py_replace1 :: "nat \<Rightarrow> nat \<Rightarrow> pystr \<Rightarrow> pystr" where
  "py_replace1 old new text = map (\<lambda>c. if c = old then new else c) text"

text \<open>\<^verbatim>\<open>text.split(sep)\<close> for a one-character separator: never an empty list.\<close>

fun py_split1 :: "nat \<Rightarrow> pystr \<Rightarrow> pystr list" where
  "py_split1 sep [] = [[]]"
| "py_split1 sep (c # cs) =
     (if c = sep then [] # py_split1 sep cs
      else (case py_split1 sep cs of
              [] \<Rightarrow> [[c]]
            | w # ws \<Rightarrow> (c # w) # ws))"

text \<open>
  \<^verbatim>\<open>text.rsplit(sep, 1)[0]\<close> for a one-character separator: the text before the last
  occurrence of \<open>sep\<close>, the whole text when there is none.
\<close>

definition rsplit1_head :: "nat \<Rightarrow> pystr \<Rightarrow> pystr" where
  "rsplit1_head sep text =
     (if sep \<in> set text then rev (tl (dropWhile (\<lambda>c. c \<noteq> sep) (rev text))) else text)"

text \<open>\<^verbatim>\<open>sep.join(parts)\<close>.\<close>

fun py_join :: "pystr \<Rightarrow> pystr list \<Rightarrow> pystr" where
  "py_join sep [] = []"
| "py_join sep [p] = p"
| "py_join sep (p # q # ps) = p @ sep @ py_join sep (q # ps)"

text \<open>\<^verbatim>\<open>str(n)\<close> of an integer, in decimal.\<close>

function str_nat :: "nat \<Rightarrow> pystr" where
  "str_nat n = (if n < 10 then [48 + n] else str_nat (n div 10) @ [48 + n mod 10])"
  by pat_completeness auto
termination
  by (relation "measure id") auto

definition str_int :: "int \<Rightarrow> pystr" where
  "str_int i = (if i < 0 then 45 # str_nat (nat (- i)) else str_nat (nat i))"

text \<open>
  Truth value of an \<^verbatim>\<open>Optional[str]\<close>: \<^verbatim>\<open>None\<close> and the empty string are false.
\<close>

fun truthy :: "pystr option \<Rightarrow> bool" where
  "truthy None = False"
| "truthy (Some s) = (s \<noteq> [])"

text \<open>
  \<^verbatim>\<open>os.path.join(a, b)\<close> with the POSIX separator: an absolute \<open>b\<close> replaces \<open>a\<close>.
\<close>

definition os_path_join :: "pystr \<Rightarrow> pystr \<Rightarrow> pystr" where
  "os_path_join a b =
     (if b \<noteq> [] \<and> hd b = 47 then b
      else if a = [] \<or> last a = 47 then a @ b
      else a @ [47] @ b)"

text \<open>
  Exceptions, by class and text.  \<open>ExternalError\<close> stands for what a collaborator (the
  extraction engine, the browser driver, the HTTP client, the file system) raises; all of them
  are subclasses of \<^verbatim>\<open>Exception\<close>.
\<close>

datatype exn =
  ValueError pystr
  | Exception pystr
  | AttributeError pystr
  | ExternalError pystr pystr

fun str_exn :: "exn \<Rightarrow> pystr" where
  "str_exn (ValueError m) = m"
| "str_exn (Exception m) = m"
| "str_exn (AttributeError m) = m"
| "str_exn (ExternalError cls m) = m"

section \<open>base.py: configuration, progress records and options\<close>

datatype OutputFormat = VIDEO | AUDIO

text \<open>
  The dataclass \<^verbatim>\<open>DownloadProgress\<close>; its fields carry the prefix \<open>dp_\<close>.  \<open>percent\<close> is a
  Python float, modelled as an exact rational: rounding to binary64 is outside the model.
\<close>

record DownloadProgress =
  dp_percent :: rat
  dp_speed :: pystr
  dp_eta :: pystr
  dp_status :: pystr
  dp_message :: pystr

text \<open>The field defaults of the dataclass.\<close>

definition new_progress :: DownloadProgress where
  "new_progress =
     \<lparr>dp_percent = 0, dp_speed = [], dp_eta = [], dp_status = u ''idle'', dp_message = []\<rparr>"

text \<open>The dataclass \<^verbatim>\<open>DownloadConfig\<close>; its fields carry the prefix \<open>cfg_\<close>.\<close>

record DownloadConfig =
  cfg_url :: pystr
  cfg_output_dir :: pystr
  cfg_output_format :: OutputFormat
  cfg_cookies_file :: "pystr option"
  cfg_ffmpeg_path :: "pystr option"

text \<open>
  The options mapping handed to the extraction engine: a dict with string keys, kept in
  insertion order.  \<open>AList.update\<close> is \<^verbatim>\<open>opts[k] = v\<close>: it replaces the value of a key that
  is present and appends a new key at the end.
\<close>

datatype hook = ProgressHook | PostprocessorHook

datatype opt_value =
  VStr pystr
  | VBool bool
  | VInt int
  | VHook hook
  | VList "opt_value list"
  | VDict "(pystr \<times> opt_value) list"

type_synonym ydl_opts = "(pystr \<times> opt_value) list"

text \<open>\<^verbatim>\<open>opts.update(other)\<close>.\<close>

definition dict_update :: "ydl_opts \<Rightarrow> ydl_opts \<Rightarrow> ydl_opts" where
  "dict_update opts other = fold (\<lambda>(k, v) acc. AList.update k v acc) other opts"

text \<open>
  What the engine passes to a progress hook and to a post-processor hook: the keys the hooks
  read.  \<open>None\<close> is a key that is absent; for the two totals it is also a key holding
  \<^verbatim>\<open>None\<close>.  Byte counts are Python numbers (the engine's estimate is a float).
\<close>

record progress_dict =
  d_status :: "pystr option"
  d_total_bytes :: "rat option"
  d_total_bytes_estimate :: "rat option"
  d_downloaded_bytes :: "rat option"
  d_speed_str :: "pystr option"
  d_eta_str :: "pystr option"

record postprocessor_dict =
  pp_status :: "pystr option"
  pp_postprocessor :: "pystr option"

datatype hook_call = CallProgressHook progress_dict | CallPostprocessorHook postprocessor_dict

text \<open>
  One run of the extraction engine (\<^verbatim>\<open>YoutubeDL(opts).extract_info(url, download=True)\<close>):
  the hook calls it makes, in order, and then the info dict it returns (\<^verbatim>\<open>None\<close> is
  possible) or the failure it raises.
\<close>

type_synonym info = "(pystr \<times> pystr) list"

record engine_run =
  hook_calls :: "hook_call list"
  outcome :: "exn + info option"

text \<open>One entry of the browser's performance log, after \<^verbatim>\<open>json.loads\<close>: an entry that
  cannot be read that far (the lookups raise and the loop continues), or the message's
  \<open>method\<close> and, when present, its \<open>params.request.url\<close>.\<close>

datatype log_entry = Unreadable | Message pystr "pystr option"

text \<open>
  One browser session, as the driver answers: which calls raise, the text of the first
  heading, and the captured log.
\<close>

record browser_session =
  start_error :: "exn option"
  get_error :: "exn option"
  cookie_button :: bool
  script_error :: "exn option"
  h1_text :: "pystr option"
  play_error :: "exn option"
  log_error :: "exn option"
  logs :: "log_entry list"

text \<open>
  One HTTP response: whether \<^verbatim>\<open>urlopen\<close> raises, the \<^verbatim>\<open>content-length\<close> header, the
  lengths of the chunks that successive \<^verbatim>\<open>read(8192)\<close> calls return (a chunk of length 0
  ends the stream, as does the end of the list) and the failure a read raises after them,
  if any.
\<close>

record http_response =
  urlopen_error :: "exn option"
  content_length :: "int option"
  chunks :: "nat list"
  read_error :: "exn option"

text \<open>
  The collaborators of the downloaders: the tool lookup (\<^verbatim>\<open>imageio_ffmpeg.get_ffmpeg_exe()\<close>,
  \<open>None\<close> when the import or the call raises, and \<^verbatim>\<open>shutil.which("ffmpeg")\<close>), the file
  system, the extraction engine, the browser, the HTTP server, the transcoder's exit status
  and whether a path exists once the transcoder has run, and the formatting of a float with
  \<^verbatim>\<open>{:.1f}\<close>.
\<close>

record env =
  imageio_ffmpeg_exe :: "pystr option"
  which_ffmpeg :: "pystr option"
  makedirs_error :: "pystr \<Rightarrow> exn option"
  open_error :: "pystr \<Rightarrow> exn option"
  engine :: "ydl_opts \<Rightarrow> pystr \<Rightarrow> engine_run"
  browser :: "pystr \<Rightarrow> browser_session"
  http :: "pystr \<Rightarrow> http_response"
  transcoder_exit :: "pystr list \<Rightarrow> int"
  exists_after_transcode :: "pystr \<Rightarrow> bool"
  format_1f :: "rat \<Rightarrow> pystr"

text \<open>
  What a download does, in order: the records given to \<^verbatim>\<open>_report_progress\<close> and the calls
  to the collaborators.
\<close>

datatype event =
  Report DownloadProgress
  | MakeDirs pystr
  | ExtractInfo ydl_opts pystr
  | DriverStart
  | DriverGet pystr
  | Sleep nat
  | FindCookieButton
  | ExecuteScript
  | FindHeading
  | WaitPlayButton
  | GetLog
  | DriverQuit
  | UrlOpen pystr "(pystr \<times> pystr) list"
  | OpenFile pystr
  | WriteChunk nat
  | RunProcess "pystr list"
  | PathExists pystr
  | Remove pystr

text \<open>
  \<^verbatim>\<open>_report_progress\<close> hands the record to the callback when one was given at
  construction; \<open>callback_calls\<close> is what the callback receives from a trace.
\<close>

definition report_progress :: "DownloadProgress \<Rightarrow> event list" where
  "report_progress progress = [Report progress]"

fun reported :: "event list \<Rightarrow> DownloadProgress list" where
  "reported [] = []"
| "reported (Report p # es) = p # reported es"
| "reported (e # es) = reported es"

definition callback_calls :: "bool \<Rightarrow> event list \<Rightarrow> DownloadProgress list" where
  "callback_calls progress_callback trace = (if progress_callback then reported trace else [])"

section \<open>The downloader classes (youtube.py, twitter.py, instagram.py, audiomack.py)\<close>

datatype downloader_cls =
  YouTubeDownloader | TwitterDownloader | InstagramDownloader | AudiomackDownloader

fun PLATFORM_NAME :: "downloader_cls \<Rightarrow> pystr" where
  "PLATFORM_NAME YouTubeDownloader = u ''YouTube''"
| "PLATFORM_NAME TwitterDownloader = u ''X (Twitter)''"
| "PLATFORM_NAME InstagramDownloader = u ''Instagram''"
| "PLATFORM_NAME AudiomackDownloader = u ''Audiomack''"

fun SUPPORTED_DOMAINS :: "downloader_cls \<Rightarrow> pystr list" where
  "SUPPORTED_DOMAINS YouTubeDownloader =
     [u ''youtube.com'', u ''youtu.be'', u ''youtube-nocookie.com'', u ''music.youtube.com'']"
| "SUPPORTED_DOMAINS TwitterDownloader =
     [u ''twitter.com'', u ''x.com'', u ''mobile.twitter.com'', u ''mobile.x.com'']"
| "SUPPORTED_DOMAINS InstagramDownloader =
     [u ''instagram.com'', u ''www.instagram.com'', u ''instagr.am'']"
| "SUPPORTED_DOMAINS AudiomackDownloader =
     [u ''audiomack.com'', u ''www.audiomack.com'']"

text \<open>\<^verbatim>\<open>BaseDownloader.can_handle\<close>: \<^verbatim>\<open>any(domain in url_lower for domain in SUPPORTED_DOMAINS)\<close>.\<close>

definition can_handle :: "downloader_cls \<Rightarrow> pystr \<Rightarrow> bool" where
  "can_handle cls the_url =
     (let url_lower = py_lower the_url
      in list_ex (\<lambda>domain. py_in domain url_lower) (SUPPORTED_DOMAINS cls))"

text \<open>
  A downloader instance: its class and the attribute \<^verbatim>\<open>_ffmpeg_path\<close>, the cached tool
  path.  \<open>new_downloader\<close> is \<^verbatim>\<open>__init__\<close>.
\<close>

record downloader =
  dl_class :: downloader_cls
  dl_ffmpeg_path :: "pystr option"

definition new_downloader :: "downloader_cls \<Rightarrow> downloader" where
  "new_downloader c = \<lparr>dl_class = c, dl_ffmpeg_path = None\<rparr>"

text \<open>
  \<^verbatim>\<open>_get_ffmpeg_path\<close>: the cached path when it is set and not empty, else the bundled tool,
  else the system tool; what is found is cached.  Returns the path and the instance.
\<close>

definition get_ffmpeg_path :: "env \<Rightarrow> downloader \<Rightarrow> pystr option \<times> downloader" where
  "get_ffmpeg_path e self =
     (if truthy (dl_ffmpeg_path self) then (dl_ffmpeg_path self, self)
      else (case imageio_ffmpeg_exe e of
              Some exe \<Rightarrow> (Some exe, self\<lparr>dl_ffmpeg_path := Some exe\<rparr>)
            | None \<Rightarrow>
                (if truthy (which_ffmpeg e)
                 then (which_ffmpeg e, self\<lparr>dl_ffmpeg_path := which_ffmpeg e\<rparr>)
                 else (None, self))))"

text \<open>\<^verbatim>\<open>_has_ffmpeg\<close>: \<^verbatim>\<open>self._get_ffmpeg_path() is not None\<close>.\<close>

definition has_ffmpeg :: "env \<Rightarrow> downloader \<Rightarrow> bool \<times> downloader" where
  "has_ffmpeg e self = (case get_ffmpeg_path e self of (path, self) \<Rightarrow> (path \<noteq> None, self))"

text \<open>\<^verbatim>\<open>a or b\<close> on numbers that may be absent: the first one that is present and not zero.\<close>

definition num_or :: "rat option \<Rightarrow> rat \<Rightarrow> rat" where
  "num_or a b = (case a of Some x \<Rightarrow> if x \<noteq> 0 then x else b | None \<Rightarrow> b)"

definition get_str :: "pystr option \<Rightarrow> pystr \<Rightarrow> pystr" where
  "get_str a fallback = (case a of Some s \<Rightarrow> s | None \<Rightarrow> fallback)"

text \<open>The closure that \<^verbatim>\<open>_create_progress_hook\<close> returns, applied to the engine's dict.\<close>

definition progress_hook :: "env \<Rightarrow> progress_dict \<Rightarrow> event list" where
  "progress_hook e d =
     (let hook_status = get_str (d_status d) []
      in if hook_status = u ''downloading'' then
           (let total = num_or (d_total_bytes d) (num_or (d_total_bytes_estimate d) 0);
                downloaded = (case d_downloaded_bytes d of Some n \<Rightarrow> n | None \<Rightarrow> 0);
                pct = (if total > 0 then downloaded * 100 / total else 0);
                speed_text = py_strip (get_str (d_speed_str d) []);
                eta_text = py_strip (get_str (d_eta_str d) [])
            in report_progress
                 \<lparr>dp_percent = pct, dp_speed = speed_text, dp_eta = eta_text,
                  dp_status = u ''downloading'',
                  dp_message = u ''Descargando'' @ [8230, 32] @ format_1f e pct @ u ''%''\<rparr>)
         else if hook_status = u ''finished'' then
           report_progress
             (new_progress\<lparr>dp_percent := 95, dp_status := u ''processing'',
                dp_message := u ''Procesando archivo'' @ [8230]\<rparr>)
         else if hook_status = u ''error'' then
           report_progress
             (new_progress\<lparr>dp_status := u ''error'', dp_message := u ''Error en la descarga''\<rparr>)
         else [])"

text \<open>The closure that \<^verbatim>\<open>_create_postprocessor_hook\<close> returns.\<close>

definition postprocessor_hook :: "postprocessor_dict \<Rightarrow> event list" where
  "postprocessor_hook d =
     (let hook_status = get_str (pp_status d) []
      in if hook_status = u ''started'' then
           (let pp = get_str (pp_postprocessor d) [];
                msg = (if py_in (u ''ExtractAudio'') pp then u ''Extrayendo audio'' @ [8230]
                       else if py_in (u ''Metadata'') pp
                       then u ''A'' @ [241] @ u ''adiendo metadatos'' @ [8230]
                       else u ''Procesando'' @ [8230])
            in report_progress
                 (new_progress\<lparr>dp_percent := 97, dp_status := u ''processing'',
                    dp_message := msg\<rparr>))
         else if hook_status = u ''finished'' then
           report_progress
             (new_progress\<lparr>dp_percent := 99, dp_status := u ''processing'',
                dp_message := u ''Finalizando'' @ [8230]\<rparr>)
         else [])"

text \<open>The engine calling its registered hooks, in order.\<close>

fun run_hook :: "env \<Rightarrow> hook_call \<Rightarrow> event list" where
  "run_hook e (CallProgressHook d) = progress_hook e d"
| "run_hook e (CallPostprocessorHook d) = postprocessor_hook d"

definition run_hooks :: "env \<Rightarrow> hook_call list \<Rightarrow> event list" where
  "run_hooks e calls = concat (map (run_hook e) calls)"

text \<open>
  \<^verbatim>\<open>_get_base_options\<close>.  \<^verbatim>\<open>os.makedirs\<close> may raise; the tool path is
  \<^verbatim>\<open>config.ffmpeg_path or self._get_ffmpeg_path()\<close>, so the lookup runs only when the
  config gives no path.
\<close>

definition get_base_options ::
  "env \<Rightarrow> downloader \<Rightarrow> DownloadConfig \<Rightarrow> event list \<times> downloader \<times> (exn + ydl_opts)" where
  "get_base_options e self config =
     (case makedirs_error e (cfg_output_dir config) of
        Some err \<Rightarrow> ([MakeDirs (cfg_output_dir config)], self, Inl err)
      | None \<Rightarrow>
          (let opts =
                 [(u ''outtmpl'',
                     VStr (os_path_join (cfg_output_dir config)
                             (u ''%(title).120s [%(id)s].%(ext)s''))),
                  (u ''noplaylist'', VBool True),
                  (u ''retries'', VInt 10),
                  (u ''fragment_retries'', VInt 10),
                  (u ''concurrent_fragment_downloads'', VInt 4),
                  (u ''progress_hooks'', VList [VHook ProgressHook]),
                  (u ''postprocessor_hooks'', VList [VHook PostprocessorHook]),
                  (u ''quiet'', VBool True),
                  (u ''no_warnings'', VBool True)];
               (ffmpeg, self) =
                 (if truthy (cfg_ffmpeg_path config) then (cfg_ffmpeg_path config, self)
                  else get_ffmpeg_path e self);
               opts = (case ffmpeg of
                         Some f \<Rightarrow>
                           if f \<noteq> [] then AList.update (u ''ffmpeg_location'') (VStr f) opts
                           else opts
                       | None \<Rightarrow> opts);
               opts = (case cfg_cookies_file config of
                         Some c \<Rightarrow>
                           if c \<noteq> [] then AList.update (u ''cookiefile'') (VStr c) opts
                           else opts
                       | None \<Rightarrow> opts)
           in ([MakeDirs (cfg_output_dir config)], self, Inr opts)))"

definition extract_audio_pp :: opt_value where
  "extract_audio_pp =
     VDict [(u ''key'', VStr (u ''FFmpegExtractAudio'')),
            (u ''preferredcodec'', VStr (u ''mp3'')),
            (u ''preferredquality'', VStr (u ''192''))]"

text \<open>
  \<^verbatim>\<open>_get_platform_options\<close> of each class.  The video branch asks \<^verbatim>\<open>_has_ffmpeg\<close>, which
  may fill the cache; the audio branch does not.
\<close>

definition youtube_platform_options ::
  "env \<Rightarrow> downloader \<Rightarrow> DownloadConfig \<Rightarrow> ydl_opts \<times> downloader" where
  "youtube_platform_options e self config =
     (let opts = [(u ''age_limit'', VInt 0), (u ''nocheckcertificate'', VBool True)]
      in if cfg_output_format config = AUDIO then
           (let opts = AList.update (u ''format'') (VStr (u ''bestaudio/best'')) opts;
                opts = AList.update (u ''postprocessors'')
                         (VList [extract_audio_pp, VDict [(u ''key'', VStr (u ''FFmpegMetadata''))]])
                         opts
            in (opts, self))
         else
           (case has_ffmpeg e self of
              (True, self) \<Rightarrow>
                (let opts = AList.update (u ''format'') (VStr (u ''bestvideo+bestaudio/best'')) opts;
                     opts = AList.update (u ''merge_output_format'') (VStr (u ''mp4'')) opts
                 in (opts, self))
            | (False, self) \<Rightarrow> (AList.update (u ''format'') (VStr (u ''best'')) opts, self)))"

definition twitter_platform_options ::
  "env \<Rightarrow> downloader \<Rightarrow> DownloadConfig \<Rightarrow> ydl_opts \<times> downloader" where
  "twitter_platform_options e self config =
     (let opts = []
      in if cfg_output_format config = AUDIO then
           (let opts = AList.update (u ''format'') (VStr (u ''bestaudio/best'')) opts;
                opts = AList.update (u ''postprocessors'') (VList [extract_audio_pp]) opts
            in (opts, self))
         else
           (case has_ffmpeg e self of
              (True, self) \<Rightarrow>
                (let opts = AList.update (u ''format'') (VStr (u ''bestvideo+bestaudio/best'')) opts;
                     opts = AList.update (u ''merge_output_format'') (VStr (u ''mp4'')) opts
                 in (opts, self))
            | (False, self) \<Rightarrow> (AList.update (u ''format'') (VStr (u ''best'')) opts, self)))"

definition instagram_platform_options ::
  "env \<Rightarrow> downloader \<Rightarrow> DownloadConfig \<Rightarrow> ydl_opts \<times> downloader" where
  "instagram_platform_options e self config =
     (let opts = [(u ''extractor_args'',
                     VDict [(u ''instagram'', VDict [(u ''skip'', VList [VStr (u ''dash'')])])])]
      in if cfg_output_format config = AUDIO then
           (let opts = AList.update (u ''format'') (VStr (u ''bestaudio/best'')) opts;
                opts = AList.update (u ''postprocessors'') (VList [extract_audio_pp]) opts
            in (opts, self))
         else
           (case has_ffmpeg e self of
              (True, self) \<Rightarrow>
                (let opts = AList.update (u ''format'') (VStr (u ''bestvideo+bestaudio/best'')) opts;
                     opts = AList.update (u ''merge_output_format'') (VStr (u ''mp4'')) opts
                 in (opts, self))
            | (False, self) \<Rightarrow> (AList.update (u ''format'') (VStr (u ''best'')) opts, self)))"

text \<open>The method as the instance's class resolves it; Audiomack's returns the empty dict.\<close>

fun get_platform_options ::
  "downloader_cls \<Rightarrow> env \<Rightarrow> downloader \<Rightarrow> DownloadConfig \<Rightarrow> ydl_opts \<times> downloader" where
  "get_platform_options YouTubeDownloader e self config = youtube_platform_options e self config"
| "get_platform_options TwitterDownloader e self config = twitter_platform_options e self config"
| "get_platform_options InstagramDownloader e self config =
     instagram_platform_options e self config"
| "get_platform_options AudiomackDownloader e self config = ([], self)"

text \<open>
  The first lines of \<^verbatim>\<open>BaseDownloader.download\<close> after the first report: the base options,
  updated with the platform options.
\<close>

definition merged_options ::
  "env \<Rightarrow> downloader \<Rightarrow> DownloadConfig \<Rightarrow> event list \<times> downloader \<times> (exn + ydl_opts)" where
  "merged_options e self config =
     (case get_base_options e self config of
        (ev, self, Inl err) \<Rightarrow> (ev, self, Inl err)
      | (ev, self, Inr opts) \<Rightarrow>
          (case get_platform_options (dl_class self) e self config of
             (platform_opts, self) \<Rightarrow> (ev, self, Inr (dict_update opts platform_opts))))"

text \<open>
  \<^verbatim>\<open>BaseDownloader.download\<close>.  The \<^verbatim>\<open>try\<close> block holds the engine run and the final
  report; \<^verbatim>\<open>info.get\<close> on \<^verbatim>\<open>None\<close> raises inside it.  The handler reports and re-raises.
\<close>

definition error_report :: "exn \<Rightarrow> event list" where
  "error_report err =
     report_progress
       (new_progress\<lparr>dp_status := u ''error'', dp_message := u ''Error: '' @ str_exn err\<rparr>)"

definition base_download ::
  "env \<Rightarrow> downloader \<Rightarrow> DownloadConfig \<Rightarrow> event list \<times> downloader \<times> (exn + info)" where
  "base_download e self config =
     (let ev0 = report_progress
                  (new_progress\<lparr>dp_status := u ''downloading'',
                     dp_message := u ''Iniciando descarga'' @ [8230]\<rparr>)
      in case merged_options e self config of
           (ev1, self, Inl err) \<Rightarrow> (ev0 @ ev1, self, Inl err)
         | (ev1, self, Inr opts) \<Rightarrow>
             (let run = engine e opts (cfg_url config);
                  ev2 = ExtractInfo opts (cfg_url config) # run_hooks e (hook_calls run)
              in case outcome run of
                   Inl err \<Rightarrow> (ev0 @ ev1 @ ev2 @ error_report err, self, Inl err)
                 | Inr None \<Rightarrow>
                     (let err = AttributeError
                                  ([39] @ u ''NoneType'' @ [39] @ u '' object has no attribute '' @ [39] @
                                   u ''get'' @ [39])
                      in (ev0 @ ev1 @ ev2 @ error_report err, self, Inl err))
                 | Inr (Some result) \<Rightarrow>
                     (ev0 @ ev1 @ ev2 @
                      report_progress
                        (new_progress\<lparr>dp_percent := 100, dp_status := u ''finished'',
                           dp_message := u ''Descarga completa: '' @
                             (case map_of result (u ''title'') of
                                Some t \<Rightarrow> t | None \<Rightarrow> u ''archivo'')\<rparr>),
                      self, Inr result)))"
section \<open>audiomack.py\<close>

text \<open>The dict \<^verbatim>\<open>metadata\<close>, with the keys \<^verbatim>\<open>title\<close>, \<^verbatim>\<open>artist\<close> and \<^verbatim>\<open>id\<close>.\<close>

record metadata =
  md_title :: pystr
  md_artist :: pystr
  md_id :: pystr

text \<open>
  \<^verbatim>\<open>re.search(r'audiomack\.com/([^/]+)/song/([^/?]+)', url)\<close>: the two groups of the
  leftmost match.  After the literal, the first group is the run of characters other than
  \<open>/\<close> (code point 47), which must not be empty and must be followed by \<open>/song/\<close>; the
  second group is the following run of characters other than \<open>/\<close> and \<open>?\<close> (63), not
  empty.
\<close>

definition match_here :: "pystr \<Rightarrow> (pystr \<times> pystr) option" where
  "match_here text =
     (if \<not> prefix (u ''audiomack.com/'') text then None
      else
        (let rest = drop (length (u ''audiomack.com/'')) text;
             group1 = takeWhile (\<lambda>c. c \<noteq> 47) rest;
             rest = dropWhile (\<lambda>c. c \<noteq> 47) rest
         in if group1 = [] \<or> \<not> prefix (u ''/song/'') rest then None
            else
              (let rest = drop (length (u ''/song/'')) rest;
                   group2 = takeWhile (\<lambda>c. c \<noteq> 47 \<and> c \<noteq> 63) rest
               in if group2 = [] then None else Some (group1, group2))))"

fun re_search :: "pystr \<Rightarrow> (pystr \<times> pystr) option" where
  "re_search [] = None"
| "re_search (c # cs) =
     (case match_here (c # cs) of Some groups \<Rightarrow> Some groups | None \<Rightarrow> re_search cs)"

text \<open>The metadata taken from the URL, over the defaults.\<close>

definition metadata_from_url :: "pystr \<Rightarrow> metadata" where
  "metadata_from_url the_url =
     (let metadata = \<lparr>md_title = u ''Unknown'', md_artist = u ''Unknown'', md_id = u ''unknown''\<rparr>
      in case re_search the_url of
           Some (group1, group2) \<Rightarrow>
             metadata\<lparr>md_artist := py_title (py_replace1 45 32 group1),
                      md_title := py_title (py_replace1 45 32 group2),
                      md_id := group2\<rparr>
         | None \<Rightarrow> metadata)"

text \<open>
  The refinement from the page's first heading; \<open>None\<close> is the lookup raising, which the
  bare \<^verbatim>\<open>except\<close> ignores.
\<close>

definition metadata_from_heading :: "pystr option \<Rightarrow> metadata \<Rightarrow> metadata" where
  "metadata_from_heading heading metadata =
     (case heading of
        None \<Rightarrow> metadata
      | Some h \<Rightarrow>
          (let text = py_strip h;
               lines = filter (\<lambda>l. l \<noteq> []) (map py_strip (py_split1 10 text))
           in case lines of
                first # second # others \<Rightarrow> metadata\<lparr>md_artist := first, md_title := second\<rparr>
              | [only] \<Rightarrow> metadata\<lparr>md_title := only\<rparr>
              | [] \<Rightarrow> metadata))"

text \<open>
  The loop over the log entries: it stops at the first \<^verbatim>\<open>Network.requestWillBeSent\<close>
  message whose request URL contains the marker; an entry whose lookups raise is skipped.
  \<open>None\<close> is \<^verbatim>\<open>streaming_url\<close> left at its initial \<^verbatim>\<open>None\<close>.
\<close>

fun scan_logs :: "log_entry list \<Rightarrow> pystr option" where
  "scan_logs [] = None"
| "scan_logs (Unreadable # rest) = scan_logs rest"
| "scan_logs (Message method req # rest) =
     (if method = u ''Network.requestWillBeSent'' then
        (case req of
           None \<Rightarrow> scan_logs rest
         | Some req_url \<Rightarrow>
             if py_in (u ''music.audiomack.com'') req_url then Some req_url
             else scan_logs rest)
      else scan_logs rest)"

text \<open>
  \<^verbatim>\<open>_extract_streaming_url\<close>.  The driver is started before the \<^verbatim>\<open>try\<close>; from then on
  \<^verbatim>\<open>finally\<close> quits it on every path (\<^verbatim>\<open>driver.quit()\<close> itself is taken not to raise).
  The two best-effort steps, the cookie button and the heading, swallow their failures.
\<close>

definition step_report :: "rat \<Rightarrow> pystr \<Rightarrow> event list" where
  "step_report pct msg =
     report_progress
       (new_progress\<lparr>dp_percent := pct, dp_status := u ''downloading'', dp_message := msg\<rparr>)"

definition extract_streaming_url ::
  "browser_session \<Rightarrow> pystr \<Rightarrow> event list \<times> (exn + pystr option \<times> metadata)" where
  "extract_streaming_url b the_url =
     (case start_error b of
        Some err \<Rightarrow> ([DriverStart], Inl err)
      | None \<Rightarrow>
     (let ev = [DriverStart] @ step_report 10 (u ''Cargando p'' @ [225] @ u ''gina...'') @
               [DriverGet the_url]
      in case get_error b of
           Some err \<Rightarrow> (ev @ [DriverQuit], Inl err)
         | None \<Rightarrow>
     (let ev = ev @ [Sleep 3] @ step_report 15 (u ''Cerrando popups...'') @ [FindCookieButton] @
               (if cookie_button b then [Sleep 1] else []) @ [ExecuteScript]
      in case script_error b of
           Some err \<Rightarrow> (ev @ [DriverQuit], Inl err)
         | None \<Rightarrow>
     (let metadata = metadata_from_heading (h1_text b) (metadata_from_url the_url);
          ev = ev @ [FindHeading] @
               step_report 25 (u ''Iniciando reproducci'' @ [243] @ u ''n...'') @ [WaitPlayButton]
      in case play_error b of
           Some err \<Rightarrow>
             (ev @ [DriverQuit],
              Inl (Exception (u ''No se encontr'' @ [243] @ u '' bot'' @ [243] @
                              u ''n de play: '' @ str_exn err)))
         | None \<Rightarrow>
     (let ev = ev @ step_report 35 (u ''Esperando carga de audio...'') @ [Sleep 8] @
               step_report 50 (u ''Buscando URL de audio...'') @ [GetLog]
      in case log_error b of
           Some err \<Rightarrow> (ev @ [DriverQuit], Inl err)
         | None \<Rightarrow> (ev @ [DriverQuit], Inr (scan_logs (logs b), metadata)))))))"

text \<open>
  The read loop of \<^verbatim>\<open>_download_file\<close>, over the chunks still to come; \<open>downloaded\<close> is the
  byte count so far.
\<close>

fun download_loop :: "int \<Rightarrow> int \<Rightarrow> nat list \<Rightarrow> exn option \<Rightarrow> event list \<times> (exn + unit)" where
  "download_loop total_bytes downloaded [] err =
     (case err of None \<Rightarrow> ([], Inr ()) | Some x \<Rightarrow> ([], Inl x))"
| "download_loop total_bytes downloaded (n # rest) err =
     (if n = 0 then ([], Inr ())
      else
        (let downloaded = downloaded + int n;
             ev = WriteChunk n #
                  (if total_bytes > 0 then
                     report_progress
                       (new_progress
                          \<lparr>dp_percent := 60 + (of_int downloaded / of_int total_bytes) * 35,
                           dp_status := u ''downloading'',
                           dp_message := u ''Descargando... '' @ str_int (downloaded div 1024) @
                             u '' KB / '' @ str_int (total_bytes div 1024) @ u '' KB''\<rparr>)
                   else [])
         in case download_loop total_bytes downloaded rest err of
              (later, result) \<Rightarrow> (ev @ later, result)))"

text \<open>
  \<^verbatim>\<open>_download_file\<close>.  The \<^verbatim>\<open>content-length\<close> header, when present, is taken to be a
  decimal number, so that \<^verbatim>\<open>int\<close> does not raise; an absent header gives the total 0.
\<close>

definition download_file :: "env \<Rightarrow> pystr \<Rightarrow> pystr \<Rightarrow> event list \<times> (exn + unit)" where
  "download_file e the_url dest_path =
     (let headers =
            [(u ''User-Agent'',
                u ''Mozilla/5.0 (Windows NT 10.0; Win64; x64) AppleWebKit/537.36''),
             (u ''Referer'', u ''https://audiomack.com/'')];
          response = http e the_url
      in case urlopen_error response of
           Some err \<Rightarrow> ([UrlOpen the_url headers], Inl err)
         | None \<Rightarrow>
             (let total = (case content_length response of Some n \<Rightarrow> n | None \<Rightarrow> 0)
              in case open_error e dest_path of
                   Some err \<Rightarrow> ([UrlOpen the_url headers, OpenFile dest_path], Inl err)
                 | None \<Rightarrow>
                     (case download_loop total 0 (chunks response) (read_error response) of
                        (ev, result) \<Rightarrow>
                          ([UrlOpen the_url headers, OpenFile dest_path] @ ev, result))))"

text \<open>
  The inner function \<^verbatim>\<open>clean\<close> of \<^verbatim>\<open>download\<close>.  \<open>ILLEGAL\<close> is the character class
  \<^verbatim>\<open>[<>:"/\\|?*]\<close>; 95 is the underscore and 32 the space.  \<open>sub_spaces\<close> is
  \<^verbatim>\<open>re.sub(r'\s+', ' ', text)\<close>: every maximal run of whitespace becomes one space.
\<close>

definition ILLEGAL :: "nat list" where
  "ILLEGAL = [60, 62, 58, 34, 47, 92, 124, 63, 42]"

definition sub_illegal :: "pystr \<Rightarrow> pystr" where
  "sub_illegal text = map (\<lambda>c. if c \<in> set ILLEGAL then 95 else c) text"

function sub_spaces :: "pystr \<Rightarrow> pystr" where
  "sub_spaces [] = []"
| "sub_spaces (c # cs) =
     (if isspace c then 32 # sub_spaces (dropWhile isspace cs) else c # sub_spaces cs)"
  by pat_completeness auto
termination
  by (relation "measure length") (auto simp: le_imp_less_Suc length_dropWhile_le)

definition clean :: "pystr \<Rightarrow> pystr" where
  "clean text =
     (let text = py_replace1 13 32 (py_replace1 10 32 text);
          text = sub_illegal text;
          text = py_strip (sub_spaces text)
      in text)"

text \<open>The two assignments that store the cleaned and capped title and artist.\<close>

definition sanitize_metadata :: "metadata \<Rightarrow> metadata" where
  "sanitize_metadata metadata =
     (let metadata = metadata\<lparr>md_title := take 100 (clean (md_title metadata))\<rparr>;
          metadata = metadata\<lparr>md_artist := take 50 (clean (md_artist metadata))\<rparr>
      in metadata)"

text \<open>
  The block "Convert to MP3 if needed" of \<^verbatim>\<open>download\<close>: it returns the path of the
  result.  The condition is evaluated left to right, so the tool is looked up only for an
  audio request with an m4a file.  \<^verbatim>\<open>subprocess.run\<close> is called without \<^verbatim>\<open>check\<close>: the
  exit status of the transcoder is not read.  A tool that the lookup has found is taken to
  start, and the file just written to exist when it is removed.  The branch where the second
  lookup finds nothing cannot be reached after a successful \<^verbatim>\<open>_has_ffmpeg\<close>; there
  \<^verbatim>\<open>subprocess.run\<close> would raise a \<^verbatim>\<open>TypeError\<close>.
\<close>

definition convert_to_mp3 ::
  "env \<Rightarrow> downloader \<Rightarrow> DownloadConfig \<Rightarrow> pystr \<Rightarrow> pystr \<Rightarrow> event list \<times> downloader \<times> (exn + pystr)"
  where
  "convert_to_mp3 e self config ext dest_path =
     (if cfg_output_format config = AUDIO \<and> ext = u ''m4a'' then
        (case has_ffmpeg e self of
           (False, self) \<Rightarrow> ([], self, Inr dest_path)
         | (True, self) \<Rightarrow>
             (let mp3_path = rsplit1_head 46 dest_path @ u ''.mp3''
              in case get_ffmpeg_path e self of
                   (None, self) \<Rightarrow>
                     (report_progress
                        (new_progress\<lparr>dp_percent := 96, dp_status := u ''processing'',
                           dp_message := u ''Convirtiendo a MP3...''\<rparr>),
                      self,
                      Inl (ExternalError (u ''TypeError'') (u ''expected str, not NoneType'')))
                 | (Some ffmpeg, self) \<Rightarrow>
                     (let args = [ffmpeg, u ''-i'', dest_path, u ''-acodec'', u ''libmp3lame'',
                                  u ''-q:a'', u ''2'', mp3_path, u ''-y''];
                          exit_status = transcoder_exit e args;
                          ev = report_progress
                                 (new_progress\<lparr>dp_percent := 96, dp_status := u ''processing'',
                                    dp_message := u ''Convirtiendo a MP3...''\<rparr>) @
                               [RunProcess args, PathExists mp3_path]
                      in if exists_after_transcode e mp3_path
                         then (ev @ [Remove dest_path], self, Inr mp3_path)
                         else (ev, self, Inr dest_path))))
      else ([], self, Inr dest_path))"

text \<open>\<^verbatim>\<open>AudiomackDownloader.download\<close>.\<close>

definition audiomack_download ::
  "env \<Rightarrow> downloader \<Rightarrow> DownloadConfig \<Rightarrow> event list \<times> downloader \<times> (exn + info)" where
  "audiomack_download e self config =
     (let ev0 = report_progress
                  (new_progress\<lparr>dp_status := u ''downloading'',
                     dp_message := u ''Iniciando descarga de Audiomack...''\<rparr>)
      in case extract_streaming_url (browser e (cfg_url config)) (cfg_url config) of
           (ev1, Inl err) \<Rightarrow> (ev0 @ ev1, self, Inl err)
         | (ev1, Inr (found, metadata)) \<Rightarrow>
     (if \<not> truthy found
      then (ev0 @ ev1, self, Inl (Exception (u ''No se pudo obtener la URL de streaming.'')))
      else
     (let streaming_url = get_str found [];
          metadata = sanitize_metadata metadata;
          ev2 = step_report 55 (u ''Descargando: '' @ md_title metadata);
          ext = (if py_in (u ''.m4a'') streaming_url then u ''m4a'' else u ''mp3'');
          filename = md_artist metadata @ u '' - '' @ md_title metadata @ u '' ['' @
                     md_id metadata @ u ''].'' @ ext;
          dest_path = os_path_join (cfg_output_dir config) filename;
          ev3 = [MakeDirs (cfg_output_dir config)]
      in case makedirs_error e (cfg_output_dir config) of
           Some err \<Rightarrow> (ev0 @ ev1 @ ev2 @ ev3, self, Inl err)
         | None \<Rightarrow>
     (case download_file e streaming_url dest_path of
        (ev4, Inl err) \<Rightarrow> (ev0 @ ev1 @ ev2 @ ev3 @ ev4, self, Inl err)
      | (ev4, Inr done) \<Rightarrow>
     (case convert_to_mp3 e self config ext dest_path of
        (ev5, self, Inl err) \<Rightarrow> (ev0 @ ev1 @ ev2 @ ev3 @ ev4 @ ev5, self, Inl err)
      | (ev5, self, Inr dest_path) \<Rightarrow>
          (ev0 @ ev1 @ ev2 @ ev3 @ ev4 @ ev5 @
           report_progress
             (new_progress\<lparr>dp_percent := 100, dp_status := u ''finished'',
                dp_message := u ''Descarga completa: '' @ md_title metadata\<rparr>),
           self,
           Inr [(u ''title'', md_title metadata), (u ''artist'', md_artist metadata),
                (u ''id'', md_id metadata), (u ''filepath'', dest_path)]))))))"

section \<open>manager.py\<close>

definition DOWNLOADERS :: "downloader_cls list" where
  "DOWNLOADERS =
     [YouTubeDownloader, TwitterDownloader, InstagramDownloader, AudiomackDownloader]"

text \<open>The manager: the dict \<^verbatim>\<open>_downloaders\<close> from platform name to instance.\<close>

record manager =
  downloaders :: "(pystr \<times> downloader) list"

definition new_manager :: manager where
  "new_manager = \<lparr>downloaders = []\<rparr>"

text \<open>
  \<^verbatim>\<open>get_supported_platforms\<close>, and the message of the \<^verbatim>\<open>ValueError\<close> that
  \<^verbatim>\<open>_get_downloader\<close> raises.
\<close>

definition get_supported_platforms :: "pystr list" where
  "get_supported_platforms = map PLATFORM_NAME DOWNLOADERS"

definition unsupported_url :: exn where
  "unsupported_url =
     ValueError (u ''URL no soportada. Plataformas disponibles: '' @
                 py_join (u '', '') (map PLATFORM_NAME DOWNLOADERS))"

text \<open>
  \<^verbatim>\<open>_get_downloader\<close>: the loop over the registry.  The first class that can handle the
  URL is instantiated unless the cache holds an instance under its name; the instance in the
  cache is returned.
\<close>

fun get_downloader_loop ::
  "downloader_cls list \<Rightarrow> manager \<Rightarrow> pystr \<Rightarrow> (exn + downloader) \<times> manager" where
  "get_downloader_loop [] m the_url = (Inl unsupported_url, m)"
| "get_downloader_loop (downloader_cls # rest) m the_url =
     (if can_handle downloader_cls the_url then
        (let key = PLATFORM_NAME downloader_cls
         in case map_of (downloaders m) key of
              None \<Rightarrow>
                (let instance = new_downloader downloader_cls
                 in (Inr instance, m\<lparr>downloaders := AList.update key instance (downloaders m)\<rparr>))
            | Some instance \<Rightarrow> (Inr instance, m))
      else get_downloader_loop rest m the_url)"

definition get_downloader :: "manager \<Rightarrow> pystr \<Rightarrow> (exn + downloader) \<times> manager" where
  "get_downloader m the_url = get_downloader_loop DOWNLOADERS m the_url"

text \<open>
  \<^verbatim>\<open>DownloadManager.detect_platform\<close>: the \<^verbatim>\<open>for\<close> loop over the registry, returning from
  inside the loop at the first class that can handle the URL.
\<close>

fun detect_platform_loop :: "downloader_cls list \<Rightarrow> pystr \<Rightarrow> pystr" where
  "detect_platform_loop [] the_url = u ''Desconocida''"
| "detect_platform_loop (downloader_cls # rest) the_url =
     (if can_handle downloader_cls the_url then PLATFORM_NAME downloader_cls
      else detect_platform_loop rest the_url)"

definition detect_platform :: "pystr \<Rightarrow> pystr" where
  "detect_platform the_url = detect_platform_loop DOWNLOADERS the_url"

text \<open>
  \<^verbatim>\<open>downloader.download(config)\<close>: the method of the instance's class.  Audiomack overrides
  it; the other classes inherit \<^verbatim>\<open>BaseDownloader.download\<close>.
\<close>

definition download ::
  "env \<Rightarrow> downloader \<Rightarrow> DownloadConfig \<Rightarrow> event list \<times> downloader \<times> (exn + info)" where
  "download e self config =
     (case dl_class self of
        AudiomackDownloader \<Rightarrow> audiomack_download e self config
      | _ \<Rightarrow> base_download e self config)"

text \<open>
  \<^verbatim>\<open>DownloadManager.download\<close>.  The instance is shared with the cache, so what the download
  changes in it (the cached tool path) is seen through the cache afterwards.
\<close>

definition manager_download ::
  "env \<Rightarrow> manager \<Rightarrow> DownloadConfig \<Rightarrow> event list \<times> manager \<times> (exn + info)" where
  "manager_download e m config =
     (case get_downloader m (cfg_url config) of
        (Inl err, m) \<Rightarrow> ([], m, Inl err)
      | (Inr instance, m) \<Rightarrow>
          (case download e instance config of
             (ev, instance, result) \<Rightarrow>
               (ev,
                m\<lparr>downloaders :=
                    AList.update (PLATFORM_NAME (dl_class instance)) instance (downloaders m)\<rparr>,
                result)))"

section \<open>The properties in the words of the specification\<close>

text \<open>
  The matching rule: some member of the class's domain list occurs as a substring of the
  lowercased URL.
\<close>

definition domain_matches :: "downloader_cls \<Rightarrow> pystr \<Rightarrow> bool" where
  "domain_matches cls the_url =
     (\<exists>d \<in> set (SUPPORTED_DOMAINS cls). \<exists>before after. py_lower the_url = before @ d @ after)"

text \<open>
  The line boundaries of \<^verbatim>\<open>str.splitlines\<close>: LF, VT, FF, CR, FS, GS, RS, NEL, LS and PS.
\<close>

definition LINE_BREAKS :: "nat list" where
  "LINE_BREAKS = [10, 11, 12, 13, 28, 29, 30, 133, 8232, 8233]"


text \<open>
  The result of \<open>sub_spaces\<close> is single-spaced: its only whitespace is the plain space, and
  no two spaces are adjacent.
\<close>

definition single_spaced :: "pystr \<Rightarrow> bool" where
  "single_spaced s = ((\<forall>c \<in> set s. isspace c \<longrightarrow> c = 32) \<and> \<not> sublist [32, 32] s)"


text \<open>
  The streaming-URL scan as the specification words it: the request URL of the first entry
  whose request URL contains the marker, whatever the entry's method.
\<close>

fun first_marked_url :: "log_entry list \<Rightarrow> pystr option" where
  "first_marked_url [] = None"
| "first_marked_url (Unreadable # rest) = first_marked_url rest"
| "first_marked_url (Message method None # rest) = first_marked_url rest"
| "first_marked_url (Message method (Some req_url) # rest) =
     (if py_in (u ''music.audiomack.com'') req_url then Some req_url else first_marked_url rest)"

text \<open>
  An entry that the scan accepts: a \<^verbatim>\<open>Network.requestWillBeSent\<close> message whose request URL
  contains the marker; and the request URL of an entry.
\<close>

fun streaming_request :: "log_entry \<Rightarrow> bool" where
  "streaming_request Unreadable = False"
| "streaming_request (Message method None) = False"
| "streaming_request (Message method (Some req_url)) =
     (method = u ''Network.requestWillBeSent'' \<and> py_in (u ''music.audiomack.com'') req_url)"

fun request_url :: "log_entry \<Rightarrow> pystr option" where
  "request_url Unreadable = None"
| "request_url (Message method req) = req"

text \<open>A browser session in which no driver call raises, so that the log is scanned.\<close>

definition session_reaches_scan :: "browser_session \<Rightarrow> bool" where
  "session_reaches_scan b =
     (start_error b = None \<and> get_error b = None \<and> script_error b = None
      \<and> play_error b = None \<and> log_error b = None)"









text \<open>
  The cache of a manager is well-formed when every instance is stored under the name of its
  class, as \<^verbatim>\<open>_get_downloader\<close> stores it.
\<close>

definition cache_ok :: "manager \<Rightarrow> bool" where
  "cache_ok m =
     (\<forall>key instance. map_of (downloaders m) key = Some instance
        \<longrightarrow> PLATFORM_NAME (dl_class instance) = key)"

section \<open>Example inputs\<close>

text \<open>
  An engine run that reports a download in progress, its end and two post-processing
  steps, and returns an info dict; an environment with the system tool installed, a page
  whose log holds one streaming request, and a response of two chunks.  The float
  formatter is a stand-in that prints the percent of the example run.
\<close>

definition example_run :: engine_run where
  "example_run =
     \<lparr>hook_calls =
        [CallProgressHook
           \<lparr>d_status = Some (u ''downloading''), d_total_bytes = Some 200,
            d_total_bytes_estimate = None, d_downloaded_bytes = Some 50,
            d_speed_str = Some (u '' 1.2MiB/s ''), d_eta_str = Some (u ''00:03'')\<rparr>,
         CallProgressHook
           \<lparr>d_status = Some (u ''finished''), d_total_bytes = Some 200,
            d_total_bytes_estimate = None, d_downloaded_bytes = Some 200,
            d_speed_str = None, d_eta_str = None\<rparr>,
         CallPostprocessorHook
           \<lparr>pp_status = Some (u ''started''), pp_postprocessor = Some (u ''ExtractAudio'')\<rparr>,
         CallPostprocessorHook
           \<lparr>pp_status = Some (u ''finished''), pp_postprocessor = Some (u ''ExtractAudio'')\<rparr>],
      outcome = Inr (Some [(u ''title'', u ''Clip''), (u ''id'', u ''abc123'')])\<rparr>"

definition example_session :: browser_session where
  "example_session =
     \<lparr>start_error = None, get_error = None, cookie_button = True, script_error = None,
      h1_text = Some (u ''Some Artist'' @ [10] @ u ''My Song''), play_error = None,
      log_error = None,
      logs = [Unreadable,
              Message (u ''Network.responseReceived'') None,
              Message (u ''Network.requestWillBeSent'')
                (Some (u ''https://music.audiomack.com/stream/track.m4a'')),
              Message (u ''Network.requestWillBeSent'') (Some (u ''https://example.org/x''))]\<rparr>"

definition example_response :: http_response where
  "example_response =
     \<lparr>urlopen_error = None, content_length = Some 10000, chunks = [8192, 1808],
      read_error = None\<rparr>"

definition example_env :: env where
  "example_env =
     \<lparr>imageio_ffmpeg_exe = None,
      which_ffmpeg = Some (u ''/usr/bin/ffmpeg''),
      makedirs_error = (\<lambda>path. None),
      open_error = (\<lambda>path. None),
      engine = (\<lambda>opts link. example_run),
      browser = (\<lambda>link. example_session),
      http = (\<lambda>link. example_response),
      transcoder_exit = (\<lambda>args. 0),
      exists_after_transcode = (\<lambda>path. True),
      format_1f = (\<lambda>q. u ''25.0'')\<rparr>"


definition failing_run :: engine_run where
  "failing_run =
     \<lparr>hook_calls =
        [CallProgressHook
           \<lparr>d_status = Some (u ''error''), d_total_bytes = None,
            d_total_bytes_estimate = None, d_downloaded_bytes = None,
            d_speed_str = None, d_eta_str = None\<rparr>],
      outcome = Inl (ExternalError (u ''DownloadError'') (u ''HTTP Error 404: Not Found''))\<rparr>"

definition failing_env :: env where
  "failing_env = example_env\<lparr>engine := (\<lambda>opts link. failing_run)\<rparr>"




text \<open>
  A log in which the only request for the streaming host is not a
  \<^verbatim>\<open>Network.requestWillBeSent\<close> message; a log in which such a message comes first, before
  a \<^verbatim>\<open>Network.requestWillBeSent\<close> message for the same host; and an environment whose
  browser captures the first of the two.
\<close>

definition intercepted_only_log :: "log_entry list" where
  "intercepted_only_log =
     [Unreadable,
      Message (u ''Network.requestIntercepted'')
        (Some (u ''https://music.audiomack.com/stream/a.m4a''))]"

definition intercepted_first_log :: "log_entry list" where
  "intercepted_first_log =
     [Message (u ''Network.requestIntercepted'')
        (Some (u ''https://music.audiomack.com/stream/a.m4a'')),
      Message (u ''Network.requestWillBeSent'')
        (Some (u ''https://music.audiomack.com/stream/b.mp3''))]"

definition no_stream_env :: env where
  "no_stream_env =
     example_env\<lparr>browser := (\<lambda>link. example_session\<lparr>logs := intercepted_only_log\<rparr>)\<rparr>"

text \<open>The configurations of the specification's end-to-end scenarios A to E.\<close>

definition scenario_A :: DownloadConfig where
  "scenario_A =
     \<lparr>cfg_url = u ''https://youtu.be/abc123'', cfg_output_dir = u ''/tmp/out'',
      cfg_output_format = VIDEO, cfg_cookies_file = None, cfg_ffmpeg_path = None\<rparr>"



definition scenario_D :: DownloadConfig where
  "scenario_D =
     \<lparr>cfg_url = u ''https://audiomack.com/some-artist/song/my-song'',
      cfg_output_dir = u ''/tmp/out'', cfg_output_format = AUDIO,
      cfg_cookies_file = Some (u ''/home/me/cookies.txt''),
      cfg_ffmpeg_path = Some (u ''/opt/ffmpeg'')\<rparr>"

definition scenario_E :: DownloadConfig where
  "scenario_E =
     \<lparr>cfg_url = u ''https://example.org/video/1'', cfg_output_dir = u ''/tmp/out'',
      cfg_output_format = VIDEO, cfg_cookies_file = None, cfg_ffmpeg_path = None\<rparr>"

section \<open>Facts about the string constants\<close>

lemma status_neq [simp]:
  "u ''downloading'' \<noteq> u ''finished''" "u ''downloading'' \<noteq> u ''error''"
  "u ''finished'' \<noteq> u ''downloading''" "u ''finished'' \<noteq> u ''error''"
  "u ''error'' \<noteq> u ''downloading''" "u ''error'' \<noteq> u ''finished''"
  "u ''started'' \<noteq> u ''finished''" "u ''finished'' \<noteq> u ''started''"
  "u ''processing'' \<noteq> u ''error''" "u ''error'' \<noteq> u ''processing''"
  by (simp_all add: u_def)

section \<open>Platform detection\<close>

lemma can_handle_iff_domain_matches: "can_handle cls the_url = domain_matches cls the_url"
  by (simp add: can_handle_def domain_matches_def py_in_def sublist_def list_ex_iff)

lemma detect_platform_loop_none:
  "\<forall>c \<in> set cs. \<not> can_handle c the_url \<Longrightarrow> detect_platform_loop cs the_url = u ''Desconocida''"
  by (induction cs) simp_all

lemma detect_platform_loop_first:
  "i < length cs \<Longrightarrow> can_handle (cs ! i) the_url \<Longrightarrow> \<forall>j < i. \<not> can_handle (cs ! j) the_url
     \<Longrightarrow> detect_platform_loop cs the_url = PLATFORM_NAME (cs ! i)"
proof (induction cs arbitrary: i)
  case Nil
  then show ?case by simp
next
  case (Cons c cs)
  show ?case
  proof (cases i)
    case 0
    with Cons.prems show ?thesis by simp
  next
    case (Suc k)
    from Cons.prems Suc have head: "\<not> can_handle c the_url" by auto
    from Cons.prems Suc have "k < length cs" "can_handle (cs ! k) the_url"
      "\<forall>j < k. \<not> can_handle (cs ! j) the_url" by auto
    then have "detect_platform_loop cs the_url = PLATFORM_NAME (cs ! k)"
      by (rule Cons.IH)
    with head Suc show ?thesis by simp
  qed
qed

text \<open>
  Claim C1.  The registry is the list YouTube, X/Twitter, Instagram, Audiomack.  For every
  URL, if the class at position \<open>i\<close> of the registry matches (one of its domains is a
  substring of the lowercased URL) and no class at an earlier position matches, then
  \<open>detect_platform\<close> returns that class's \<open>PLATFORM_NAME\<close>, whatever later classes match;
  if no class matches it returns the sentinel "Desconocida".
\<close>

theorem detect_platform_first_match:
  "DOWNLOADERS = [YouTubeDownloader, TwitterDownloader, InstagramDownloader, AudiomackDownloader]
   \<and> (\<forall>i < length DOWNLOADERS.
         domain_matches (DOWNLOADERS ! i) the_url \<and> (\<forall>j < i. \<not> domain_matches (DOWNLOADERS ! j) the_url)
         \<longrightarrow> detect_platform the_url = PLATFORM_NAME (DOWNLOADERS ! i))
   \<and> ((\<forall>c \<in> set DOWNLOADERS. \<not> domain_matches c the_url)
         \<longrightarrow> detect_platform the_url = u ''Desconocida'')"
proof (intro conjI allI impI)
  show "DOWNLOADERS = [YouTubeDownloader, TwitterDownloader, InstagramDownloader, AudiomackDownloader]"
    by (simp add: DOWNLOADERS_def)
next
  fix i
  assume "i < length DOWNLOADERS"
    and "domain_matches (DOWNLOADERS ! i) the_url \<and> (\<forall>j < i. \<not> domain_matches (DOWNLOADERS ! j) the_url)"
  then show "detect_platform the_url = PLATFORM_NAME (DOWNLOADERS ! i)"
    unfolding detect_platform_def
    by (intro detect_platform_loop_first) (simp_all add: can_handle_iff_domain_matches)
next
  assume "\<forall>c \<in> set DOWNLOADERS. \<not> domain_matches c the_url"
  then show "detect_platform the_url = u ''Desconocida''"
    unfolding detect_platform_def
    by (intro detect_platform_loop_none) (simp add: can_handle_iff_domain_matches)
qed

theorem detect_platform_first_match_witness:
  "can_handle TwitterDownloader (u ''https://X.com/?ref=instagram.com'')
   \<and> can_handle InstagramDownloader (u ''https://X.com/?ref=instagram.com'')
   \<and> \<not> can_handle YouTubeDownloader (u ''https://X.com/?ref=instagram.com'')
   \<and> detect_platform (u ''https://X.com/?ref=instagram.com'') = u ''X (Twitter)''
   \<and> \<not> can_handle YouTubeDownloader (u ''https://example.org/a'')
   \<and> \<not> can_handle TwitterDownloader (u ''https://example.org/a'')
   \<and> \<not> can_handle InstagramDownloader (u ''https://example.org/a'')
   \<and> \<not> can_handle AudiomackDownloader (u ''https://example.org/a'')
   \<and> detect_platform (u ''https://example.org/a'') = u ''Desconocida''"
proof -
  let ?w = "u ''https://X.com/?ref=instagram.com''"
  let ?n = "u ''https://example.org/a''"
  have tw: "can_handle TwitterDownloader ?w" by code_simp
  have ig: "can_handle InstagramDownloader ?w" by code_simp
  have yt: "\<not> can_handle YouTubeDownloader ?w" by code_simp
  have n1: "\<not> can_handle YouTubeDownloader ?n" by code_simp
  have n2: "\<not> can_handle TwitterDownloader ?n" by code_simp
  have n3: "\<not> can_handle InstagramDownloader ?n" by code_simp
  have n4: "\<not> can_handle AudiomackDownloader ?n" by code_simp
  have first: "detect_platform ?w = PLATFORM_NAME (DOWNLOADERS ! 1)"
    using detect_platform_first_match [of ?w, THEN conjunct2, THEN conjunct1, rule_format, of 1]
      tw yt
    by (simp add: DOWNLOADERS_def can_handle_iff_domain_matches)
  have none: "detect_platform ?n = u ''Desconocida''"
    using detect_platform_first_match [of ?n, THEN conjunct2, THEN conjunct2] n1 n2 n3 n4
    by (simp add: DOWNLOADERS_def can_handle_iff_domain_matches)
  from first have "detect_platform ?w = u ''X (Twitter)''"
    by (simp add: DOWNLOADERS_def)
  with tw ig yt n1 n2 n3 n4 none show ?thesis by blast
qed

section \<open>The format policy of the generic platforms\<close>

lemma key_neq [simp]:
  "u ''format'' \<noteq> u ''postprocessors''" "u ''format'' \<noteq> u ''merge_output_format''"
  "u ''postprocessors'' \<noteq> u ''merge_output_format''"
  "u ''postprocessors'' \<noteq> u ''format''" "u ''merge_output_format'' \<noteq> u ''format''"
  "u ''merge_output_format'' \<noteq> u ''postprocessors''"
  by (simp_all add: u_def)








lemma get_ffmpeg_path_class: "dl_class (snd (get_ffmpeg_path e self)) = dl_class self"
  by (cases "dl_ffmpeg_path self"; cases "imageio_ffmpeg_exe e"; cases "which_ffmpeg e")
     (auto simp: get_ffmpeg_path_def)




lemma merged_options_succeed:
  "makedirs_error e (cfg_output_dir config) = None \<Longrightarrow>
   \<exists>ev self2 opts. merged_options e self config = (ev, self2, Inr opts)"
  by (auto simp: merged_options_def get_base_options_def Let_def split: prod.splits sum.splits)



section \<open>The manager\<close>

lemma get_downloader_loop_none:
  "\<forall>c \<in> set cs. \<not> can_handle c link \<Longrightarrow>
   get_downloader_loop cs m link = (Inl unsupported_url, m)"
  by (induction cs) simp_all

lemma get_downloader_loop_first:
  "i < length cs \<Longrightarrow> can_handle (cs ! i) link \<Longrightarrow> \<forall>j < i. \<not> can_handle (cs ! j) link \<Longrightarrow>
   get_downloader_loop cs m link =
     (case map_of (downloaders m) (PLATFORM_NAME (cs ! i)) of
        None \<Rightarrow>
          (Inr (new_downloader (cs ! i)),
           m\<lparr>downloaders :=
               AList.update (PLATFORM_NAME (cs ! i)) (new_downloader (cs ! i)) (downloaders m)\<rparr>)
      | Some found \<Rightarrow> (Inr found, m))"
proof (induction cs arbitrary: i)
  case Nil
  then show ?case by simp
next
  case (Cons c cs)
  show ?case
  proof (cases i)
    case 0
    with Cons.prems show ?thesis by (simp add: Let_def split: option.splits)
  next
    case (Suc k)
    from Cons.prems Suc have head: "\<not> can_handle c link" by auto
    from Cons.prems Suc have "k < length cs" "can_handle (cs ! k) link"
      "\<forall>j < k. \<not> can_handle (cs ! j) link" by auto
    then have "get_downloader_loop cs m link =
     (case map_of (downloaders m) (PLATFORM_NAME (cs ! k)) of
        None \<Rightarrow>
          (Inr (new_downloader (cs ! k)),
           m\<lparr>downloaders :=
               AList.update (PLATFORM_NAME (cs ! k)) (new_downloader (cs ! k)) (downloaders m)\<rparr>)
      | Some found \<Rightarrow> (Inr found, m))"
      by (rule Cons.IH)
    moreover have "(c # cs) ! i = cs ! k" using Suc by simp
    ultimately show ?thesis unfolding \<open>(c # cs) ! i = cs ! k\<close> using head by simp
  qed
qed

lemma unsupported_url_text:
  "unsupported_url =
     ValueError
       (u ''URL no soportada. Plataformas disponibles: YouTube, X (Twitter), Instagram, Audiomack'')"
  by (simp add: unsupported_url_def DOWNLOADERS_def u_def)

lemma PLATFORM_NAME_inj: "PLATFORM_NAME a = PLATFORM_NAME b \<Longrightarrow> a = b"
  by (cases a; cases b) (simp_all add: u_def)

lemma manager_download_unsupported:
  "\<forall>c \<in> set DOWNLOADERS. \<not> can_handle c (cfg_url config) \<Longrightarrow>
   manager_download e m config = ([], m, Inl unsupported_url)"
  by (simp add: manager_download_def get_downloader_def get_downloader_loop_none)

lemma manager_download_delegates:
  assumes i: "i < length DOWNLOADERS"
    and hit: "can_handle (DOWNLOADERS ! i) (cfg_url config)"
    and first: "\<forall>j < i. \<not> can_handle (DOWNLOADERS ! j) (cfg_url config)"
  shows "fst (manager_download e m config) =
           fst (download e
                  (case map_of (downloaders m) (PLATFORM_NAME (DOWNLOADERS ! i)) of
                     None \<Rightarrow> new_downloader (DOWNLOADERS ! i) | Some found \<Rightarrow> found)
                  config)"
    and "snd (snd (manager_download e m config)) =
           snd (snd (download e
                  (case map_of (downloaders m) (PLATFORM_NAME (DOWNLOADERS ! i)) of
                     None \<Rightarrow> new_downloader (DOWNLOADERS ! i) | Some found \<Rightarrow> found)
                  config))"
  using get_downloader_loop_first [OF i hit first, of m]
  by (auto simp: manager_download_def get_downloader_def split: option.splits prod.splits)

text \<open>
  Claim C3.  When no registered class can handle the configuration's URL, the manager's
  \<open>download\<close> returns at once the \<^verbatim>\<open>ValueError\<close> whose message lists the four platform
  names, with an empty trace (no report, no call to the engine, the browser, the network or the
  file system) and the manager unchanged, in every environment.  When the class at position
  \<open>i\<close> of the registry is the first that can handle the URL, which is the class whose name
  \<open>detect_platform\<close> returns, the trace and the result of the manager's \<open>download\<close> are those
  of the \<open>download\<close> of that class's instance (the cached one, else a new one); in a
  well-formed cache the cached instance is of that class.
\<close>

theorem manager_download_dispatch:
  "((\<forall>c \<in> set DOWNLOADERS. \<not> can_handle c (cfg_url config)) \<longrightarrow>
      manager_download e m config =
        ([], m,
         Inl (ValueError
           (u ''URL no soportada. Plataformas disponibles: YouTube, X (Twitter), Instagram, Audiomack'')))
      \<and> get_supported_platforms = [u ''YouTube'', u ''X (Twitter)'', u ''Instagram'', u ''Audiomack''])
   \<and> (\<forall>i < length DOWNLOADERS.
        can_handle (DOWNLOADERS ! i) (cfg_url config)
        \<and> (\<forall>j < i. \<not> can_handle (DOWNLOADERS ! j) (cfg_url config))
        \<longrightarrow> detect_platform (cfg_url config) = PLATFORM_NAME (DOWNLOADERS ! i)
            \<and> (\<exists>chosen.
                  chosen = (case map_of (downloaders m) (PLATFORM_NAME (DOWNLOADERS ! i)) of
                              None \<Rightarrow> new_downloader (DOWNLOADERS ! i) | Some found \<Rightarrow> found)
                  \<and> fst (manager_download e m config) = fst (download e chosen config)
                  \<and> snd (snd (manager_download e m config)) = snd (snd (download e chosen config))
                  \<and> (cache_ok m \<longrightarrow> dl_class chosen = DOWNLOADERS ! i)))"
proof (intro conjI allI impI)
  assume "\<forall>c \<in> set DOWNLOADERS. \<not> can_handle c (cfg_url config)"
  then show "manager_download e m config =
        ([], m,
         Inl (ValueError
           (u ''URL no soportada. Plataformas disponibles: YouTube, X (Twitter), Instagram, Audiomack'')))"
    by (simp add: manager_download_unsupported unsupported_url_text)
next
  show "get_supported_platforms = [u ''YouTube'', u ''X (Twitter)'', u ''Instagram'', u ''Audiomack'']"
    by (simp add: get_supported_platforms_def DOWNLOADERS_def)
next
  fix i
  assume i: "i < length DOWNLOADERS"
    and a: "can_handle (DOWNLOADERS ! i) (cfg_url config)
        \<and> (\<forall>j < i. \<not> can_handle (DOWNLOADERS ! j) (cfg_url config))"
  then show "detect_platform (cfg_url config) = PLATFORM_NAME (DOWNLOADERS ! i)"
    unfolding detect_platform_def by (intro detect_platform_loop_first) simp_all
  let ?chosen = "case map_of (downloaders m) (PLATFORM_NAME (DOWNLOADERS ! i)) of
                   None \<Rightarrow> new_downloader (DOWNLOADERS ! i) | Some found \<Rightarrow> found"
  have ok: "cache_ok m \<longrightarrow> dl_class ?chosen = DOWNLOADERS ! i"
    by (auto simp: cache_ok_def new_downloader_def dest: PLATFORM_NAME_inj split: option.splits)
  from i a have "fst (manager_download e m config) = fst (download e ?chosen config)"
    and "snd (snd (manager_download e m config)) = snd (snd (download e ?chosen config))"
    by (simp_all add: manager_download_delegates)
  with ok show "\<exists>chosen.
                  chosen = (case map_of (downloaders m) (PLATFORM_NAME (DOWNLOADERS ! i)) of
                              None \<Rightarrow> new_downloader (DOWNLOADERS ! i) | Some found \<Rightarrow> found)
                  \<and> fst (manager_download e m config) = fst (download e chosen config)
                  \<and> snd (snd (manager_download e m config)) = snd (snd (download e chosen config))
                  \<and> (cache_ok m \<longrightarrow> dl_class chosen = DOWNLOADERS ! i)"
    by blast
qed

theorem manager_download_dispatch_witness:
  "manager_download example_env new_manager scenario_E =
     ([], new_manager,
      Inl (ValueError
        (u ''URL no soportada. Plataformas disponibles: YouTube, X (Twitter), Instagram, Audiomack'')))
   \<and> can_handle YouTubeDownloader (cfg_url scenario_A)
   \<and> detect_platform (cfg_url scenario_A) = u ''YouTube''
   \<and> fst (manager_download example_env new_manager scenario_A)
       = fst (download example_env (new_downloader YouTubeDownloader) scenario_A)
   \<and> snd (snd (manager_download example_env new_manager scenario_A))
       = snd (snd (download example_env (new_downloader YouTubeDownloader) scenario_A))"
proof -
  have none: "\<forall>c \<in> set DOWNLOADERS. \<not> can_handle c (cfg_url scenario_E)"
    by (simp add: DOWNLOADERS_def can_handle_def py_lower_def lower_cp_def py_in_def
        scenario_E_def u_def sublist_code)
  have e: "manager_download example_env new_manager scenario_E =
     ([], new_manager,
      Inl (ValueError
        (u ''URL no soportada. Plataformas disponibles: YouTube, X (Twitter), Instagram, Audiomack'')))"
    using manager_download_dispatch [of scenario_E example_env new_manager] none by blast
  have yt: "can_handle YouTubeDownloader (cfg_url scenario_A)"
    by (simp add: can_handle_def py_lower_def lower_cp_def py_in_def scenario_A_def u_def
        sublist_code)
  have ok: "cache_ok new_manager" by (simp add: cache_ok_def new_manager_def)
  have "detect_platform (cfg_url scenario_A) = PLATFORM_NAME (DOWNLOADERS ! 0)
        \<and> (\<exists>chosen.
              chosen = (case map_of (downloaders new_manager) (PLATFORM_NAME (DOWNLOADERS ! 0)) of
                          None \<Rightarrow> new_downloader (DOWNLOADERS ! 0) | Some found \<Rightarrow> found)
              \<and> fst (manager_download example_env new_manager scenario_A)
                  = fst (download example_env chosen scenario_A)
              \<and> snd (snd (manager_download example_env new_manager scenario_A))
                  = snd (snd (download example_env chosen scenario_A))
              \<and> (cache_ok new_manager \<longrightarrow> dl_class chosen = DOWNLOADERS ! 0))"
    using manager_download_dispatch
            [of scenario_A example_env new_manager, THEN conjunct2, rule_format, of 0] yt
    by (simp add: DOWNLOADERS_def)
  then have "detect_platform (cfg_url scenario_A) = u ''YouTube''"
    and "fst (manager_download example_env new_manager scenario_A)
       = fst (download example_env (new_downloader YouTubeDownloader) scenario_A)"
    and "snd (snd (manager_download example_env new_manager scenario_A))
       = snd (snd (download example_env (new_downloader YouTubeDownloader) scenario_A))"
    by (simp_all add: DOWNLOADERS_def new_manager_def)
  with e yt show ?thesis by blast
qed

subsection \<open>The cache stays well-formed\<close>

lemma has_ffmpeg_class: "dl_class (snd (has_ffmpeg e self)) = dl_class self"
  using get_ffmpeg_path_class [of e self]
  by (cases "get_ffmpeg_path e self") (simp add: has_ffmpeg_def)

lemma platform_options_class:
  "dl_class (snd (get_platform_options c e self config)) = dl_class self"
  using has_ffmpeg_class [of e self]
  by (cases c; cases "cfg_output_format config"; cases "has_ffmpeg e self";
      cases "fst (has_ffmpeg e self)")
     (simp_all add: youtube_platform_options_def twitter_platform_options_def
        instagram_platform_options_def)

lemma base_options_class:
  "dl_class (fst (snd (get_base_options e self config))) = dl_class self"
  using get_ffmpeg_path_class [of e self]
  by (cases "get_ffmpeg_path e self")
     (simp add: get_base_options_def Let_def split: option.splits)

lemma merged_options_class:
  "dl_class (fst (snd (merged_options e self config))) = dl_class self"
proof -
  obtain ev self1 r where b: "get_base_options e self config = (ev, self1, r)"
    by (cases "get_base_options e self config")
  with base_options_class [of e self config] have c: "dl_class self1 = dl_class self" by simp
  show ?thesis
  proof (cases r)
    case (Inl err)
    with b c show ?thesis by (simp add: merged_options_def)
  next
    case (Inr opts)
    with b c platform_options_class [of "dl_class self1" e self1 config] show ?thesis
      by (cases "get_platform_options (dl_class self1) e self1 config")
         (simp add: merged_options_def)
  qed
qed

lemma base_download_class:
  "dl_class (fst (snd (base_download e self config))) = dl_class self"
  using merged_options_class [of e self config]
  by (cases "merged_options e self config")
     (auto simp: base_download_def Let_def split: sum.splits option.splits)

lemma convert_to_mp3_class:
  "dl_class (fst (snd (convert_to_mp3 e self config ext dest))) = dl_class self"
proof -
  obtain found self1 where h: "has_ffmpeg e self = (found, self1)"
    by (cases "has_ffmpeg e self")
  with has_ffmpeg_class [of e self] have c1: "dl_class self1 = dl_class self" by simp
  obtain path self2 where g: "get_ffmpeg_path e self1 = (path, self2)"
    by (cases "get_ffmpeg_path e self1")
  with get_ffmpeg_path_class [of e self1] c1 have c2: "dl_class self2 = dl_class self" by simp
  from h g c1 c2 show ?thesis
    by (cases found; cases path) (simp_all add: convert_to_mp3_def Let_def)
qed

lemma audiomack_download_class:
  "dl_class (fst (snd (audiomack_download e self config))) = dl_class self"
  using convert_to_mp3_class [of e self config]
  by (auto simp: audiomack_download_def Let_def
      split: prod.splits sum.splits option.splits)
     (metis fst_conv snd_conv)+

lemma download_class: "dl_class (fst (snd (download e self config))) = dl_class self"
  by (cases "dl_class self")
     (simp_all add: download_def base_download_class audiomack_download_class)

lemma cache_ok_update:
  "cache_ok m \<Longrightarrow>
   cache_ok (m\<lparr>downloaders := AList.update (PLATFORM_NAME (dl_class d)) d (downloaders m)\<rparr>)"
  by (simp add: cache_ok_def update_conv')

lemma get_downloader_loop_cache_ok:
  "cache_ok m \<Longrightarrow> cache_ok (snd (get_downloader_loop cs m link))"
proof (induction cs)
  case Nil
  then show ?case by simp
next
  case (Cons c cs)
  have "cache_ok (m\<lparr>downloaders :=
          AList.update (PLATFORM_NAME c) (new_downloader c) (downloaders m)\<rparr>)"
    using cache_ok_update [OF Cons.prems, of "new_downloader c"]
    by (simp add: new_downloader_def)
  with Cons show ?case by (simp add: Let_def split: option.splits)
qed

text \<open>
  The cache of a new manager is well-formed, and the manager's \<open>download\<close> keeps it so:
  every manager that the program reaches has a well-formed cache.
\<close>

lemma cache_ok_new_manager: "cache_ok new_manager"
  by (simp add: cache_ok_def new_manager_def)

lemma manager_download_cache_ok:
  assumes "cache_ok m"
  shows "cache_ok (fst (snd (manager_download e m config)))"
proof -
  obtain r m1 where g: "get_downloader m (cfg_url config) = (r, m1)"
    by (cases "get_downloader m (cfg_url config)")
  with get_downloader_loop_cache_ok [OF assms, of DOWNLOADERS "cfg_url config"]
  have ok: "cache_ok m1" by (simp add: get_downloader_def)
  show ?thesis
  proof (cases r)
    case (Inl err)
    with g ok show ?thesis by (simp add: manager_download_def)
  next
    case (Inr chosen)
    obtain ev chosen1 res where d: "download e chosen config = (ev, chosen1, res)"
      by (cases "download e chosen config")
    from g Inr d cache_ok_update [OF ok, of chosen1] show ?thesis
      by (simp add: manager_download_def)
  qed
qed

section \<open>The generic download: failures of the engine\<close>

lemma error_report_record:
  "error_report err =
     [Report \<lparr>dp_percent = 0, dp_speed = [], dp_eta = [], dp_status = u ''error'',
              dp_message = u ''Error: '' @ str_exn err\<rparr>]"
  by (simp add: error_report_def report_progress_def new_progress_def)

lemma generic_message_differs: "u ''Error en la descarga'' \<noteq> u ''Error: '' @ text"
  by (simp add: u_def)

lemma hook_event_not_handler:
  "x \<in> set (run_hook e c) \<Longrightarrow>
   x \<noteq> Report \<lparr>dp_percent = 0, dp_speed = [], dp_eta = [], dp_status = u ''error'',
                dp_message = u ''Error: '' @ text\<rparr>"
proof (cases c)
  case (CallProgressHook d)
  assume "x \<in> set (run_hook e c)"
  with CallProgressHook show ?thesis
    by (auto simp: progress_hook_def report_progress_def new_progress_def Let_def
        generic_message_differs split: if_splits)
next
  case (CallPostprocessorHook d)
  assume "x \<in> set (run_hook e c)"
  with CallPostprocessorHook show ?thesis
    by (auto simp: postprocessor_hook_def report_progress_def new_progress_def Let_def
        split: if_splits)
qed

lemma hooks_event_not_handler:
  "x \<in> set (run_hooks e calls) \<Longrightarrow>
   x \<noteq> Report \<lparr>dp_percent = 0, dp_speed = [], dp_eta = [], dp_status = u ''error'',
                dp_message = u ''Error: '' @ text\<rparr>"
  by (auto simp: run_hooks_def dest: hook_event_not_handler)

lemma merged_options_events:
  "merged_options e self config = (ev, self1, r) \<Longrightarrow> ev = [MakeDirs (cfg_output_dir config)]"
  by (auto simp: merged_options_def get_base_options_def Let_def
      split: option.splits prod.splits sum.splits)

lemma base_download_engine_failure:
  assumes m: "merged_options e self config = (ev1, self1, Inr opts)"
    and f: "outcome (engine e opts (cfg_url config)) = Inl err"
  shows "base_download e self config =
           ((report_progress
               (new_progress\<lparr>dp_status := u ''downloading'',
                  dp_message := u ''Iniciando descarga'' @ [8230]\<rparr>) @
             ev1 @ ExtractInfo opts (cfg_url config) #
             run_hooks e (hook_calls (engine e opts (cfg_url config)))) @
            [Report \<lparr>dp_percent = 0, dp_speed = [], dp_eta = [], dp_status = u ''error'',
                     dp_message = u ''Error: '' @ str_exn err\<rparr>],
            self1, Inl err)"
  using m f by (simp add: base_download_def Let_def error_report_record)

text \<open>
  Claim C4.  In the generic download (the \<open>download\<close> of an instance of a class other than
  Audiomack), when the options were built and the engine's run raises a failure, the trace
  ends with the report of the record with status "error" and message "Error: " followed by
  the failure's text, that record is reported nowhere else in the trace, and the result is
  that same failure.  (An "error" event of the engine's own progress hook, with its fixed
  message, may come earlier in the trace.)
\<close>

theorem engine_failure_reported_and_raised:
  "dl_class self \<noteq> AudiomackDownloader
     \<and> merged_options e self config = (ev1, self1, Inr opts)
     \<and> outcome (engine e opts (cfg_url config)) = Inl err
   \<longrightarrow> (\<exists>before.
          download e self config =
            (before @
             [Report \<lparr>dp_percent = 0, dp_speed = [], dp_eta = [], dp_status = u ''error'',
                      dp_message = u ''Error: '' @ str_exn err\<rparr>],
             self1, Inl err)
          \<and> Report \<lparr>dp_percent = 0, dp_speed = [], dp_eta = [], dp_status = u ''error'',
                     dp_message = u ''Error: '' @ str_exn err\<rparr> \<notin> set before)"
proof
  let ?r = "Report \<lparr>dp_percent = 0, dp_speed = [], dp_eta = [], dp_status = u ''error'',
                     dp_message = u ''Error: '' @ str_exn err\<rparr>"
  let ?before = "report_progress
               (new_progress\<lparr>dp_status := u ''downloading'',
                  dp_message := u ''Iniciando descarga'' @ [8230]\<rparr>) @
             ev1 @ ExtractInfo opts (cfg_url config) #
             run_hooks e (hook_calls (engine e opts (cfg_url config)))"
  assume a: "dl_class self \<noteq> AudiomackDownloader
     \<and> merged_options e self config = (ev1, self1, Inr opts)
     \<and> outcome (engine e opts (cfg_url config)) = Inl err"
  then have "download e self config = base_download e self config"
    by (cases "dl_class self") (simp_all add: download_def)
  with a have d: "download e self config = (?before @ [?r], self1, Inl err)"
    by (simp add: base_download_engine_failure)
  from a have ev1: "ev1 = [MakeDirs (cfg_output_dir config)]"
    by (auto dest: merged_options_events)
  have "?r \<notin> set (run_hooks e (hook_calls (engine e opts (cfg_url config))))"
    using hooks_event_not_handler by blast
  then have "?r \<notin> set ?before"
    by (simp add: ev1 report_progress_def new_progress_def)
  with d show "\<exists>before. download e self config = (before @ [?r], self1, Inl err)
      \<and> ?r \<notin> set before"
    by blast
qed

theorem engine_failure_reported_and_raised_witness:
  "\<exists>before self1.
     download failing_env (new_downloader YouTubeDownloader) scenario_A =
       (before @
        [Report \<lparr>dp_percent = 0, dp_speed = [], dp_eta = [], dp_status = u ''error'',
                 dp_message = u ''Error: HTTP Error 404: Not Found''\<rparr>],
        self1, Inl (ExternalError (u ''DownloadError'') (u ''HTTP Error 404: Not Found'')))
     \<and> Report \<lparr>dp_percent = 0, dp_speed = [], dp_eta = [], dp_status = u ''error'',
                dp_message = u ''Error: HTTP Error 404: Not Found''\<rparr> \<notin> set before"
proof -
  let ?d = "new_downloader YouTubeDownloader"
  let ?err = "ExternalError (u ''DownloadError'') (u ''HTTP Error 404: Not Found'')"
  have "makedirs_error failing_env (cfg_output_dir scenario_A) = None"
    by (simp add: failing_env_def example_env_def)
  then obtain ev1 self1 opts where
    m: "merged_options failing_env ?d scenario_A = (ev1, self1, Inr opts)"
    using merged_options_succeed by blast
  have c: "dl_class ?d \<noteq> AudiomackDownloader" by (simp add: new_downloader_def)
  have f: "outcome (engine failing_env opts (cfg_url scenario_A)) = Inl ?err"
    by (simp add: failing_env_def failing_run_def)
  have t: "u ''Error: '' @ str_exn ?err = u ''Error: HTTP Error 404: Not Found''"
    by (simp add: u_def)
  from engine_failure_reported_and_raised [of ?d failing_env scenario_A ev1 self1 opts ?err] c m f
  show ?thesis unfolding t by blast
qed

section \<open>Audiomack: the scan of the network log\<close>

lemma scan_logs_none:
  "\<forall>entry \<in> set ls. \<not> streaming_request entry \<Longrightarrow> scan_logs ls = None"
  by (induction ls rule: scan_logs.induct) (auto split: option.splits)

lemma scan_logs_hit:
  "streaming_request entry \<Longrightarrow> scan_logs (entry # rest) = request_url entry"
  by (cases entry rule: streaming_request.cases) simp_all

lemma scan_logs_skip:
  "\<not> streaming_request entry \<Longrightarrow> scan_logs (entry # rest) = scan_logs rest"
  by (cases entry rule: streaming_request.cases) auto

lemma scan_logs_first:
  "i < length ls \<Longrightarrow> streaming_request (ls ! i) \<Longrightarrow> \<forall>j < i. \<not> streaming_request (ls ! j)
     \<Longrightarrow> scan_logs ls = request_url (ls ! i)"
proof (induction ls arbitrary: i)
  case Nil
  then show ?case by simp
next
  case (Cons entry rest)
  show ?case
  proof (cases i)
    case 0
    with Cons.prems show ?thesis by (simp add: scan_logs_hit)
  next
    case (Suc k)
    from Cons.prems Suc have skip: "\<not> streaming_request entry" by auto
    from Cons.prems Suc have "k < length rest" "streaming_request (rest ! k)"
      "\<forall>j < k. \<not> streaming_request (rest ! j)" by auto
    then have "scan_logs rest = request_url (rest ! k)" by (rule Cons.IH)
    with skip Suc show ?thesis by (simp add: scan_logs_skip)
  qed
qed

lemma extract_reaches_scan:
  "session_reaches_scan b \<Longrightarrow>
   snd (extract_streaming_url b link)
     = Inr (scan_logs (logs b), metadata_from_heading (h1_text b) (metadata_from_url link))"
  by (simp add: session_reaches_scan_def extract_streaming_url_def Let_def)

lemma audiomack_no_streaming_url:
  assumes "snd (extract_streaming_url (browser e (cfg_url config)) (cfg_url config))
             = Inr (None, metadata)"
  shows "audiomack_download e self config =
           (report_progress
              (new_progress\<lparr>dp_status := u ''downloading'',
                 dp_message := u ''Iniciando descarga de Audiomack...''\<rparr>) @
            fst (extract_streaming_url (browser e (cfg_url config)) (cfg_url config)),
            self, Inl (Exception (u ''No se pudo obtener la URL de streaming.'')))"
proof -
  obtain ev r where x: "extract_streaming_url (browser e (cfg_url config)) (cfg_url config) = (ev, r)"
    by (cases "extract_streaming_url (browser e (cfg_url config)) (cfg_url config)")
  with assms have "r = Inr (None, metadata)" by simp
  with x show ?thesis by (simp add: audiomack_download_def)
qed

text \<open>
  Claim C5, as the code has it.  For every list of log entries, the scan returns the request
  URL of the first entry that is a \<^verbatim>\<open>Network.requestWillBeSent\<close> message and whose request
  URL contains "music.audiomack.com", whatever follows that entry; when no entry is such a
  message it returns nothing, and then a download whose browser session reached the scan
  fails with the error "No se pudo obtener la URL de streaming." right after the browser
  steps, without any further step.
\<close>

theorem scan_returns_first_streaming_request:
  "(\<forall>i < length ls.
      streaming_request (ls ! i) \<and> (\<forall>j < i. \<not> streaming_request (ls ! j))
      \<longrightarrow> scan_logs ls = request_url (ls ! i))
   \<and> ((\<forall>entry \<in> set ls. \<not> streaming_request entry) \<longrightarrow> scan_logs ls = None)
   \<and> (session_reaches_scan (browser e (cfg_url config))
        \<and> (\<forall>entry \<in> set (logs (browser e (cfg_url config))). \<not> streaming_request entry)
        \<longrightarrow> audiomack_download e self config =
              (report_progress
                 (new_progress\<lparr>dp_status := u ''downloading'',
                    dp_message := u ''Iniciando descarga de Audiomack...''\<rparr>) @
               fst (extract_streaming_url (browser e (cfg_url config)) (cfg_url config)),
               self, Inl (Exception (u ''No se pudo obtener la URL de streaming.''))))"
proof (intro conjI allI impI)
  fix i
  assume "i < length ls"
    and "streaming_request (ls ! i) \<and> (\<forall>j < i. \<not> streaming_request (ls ! j))"
  then show "scan_logs ls = request_url (ls ! i)"
    by (intro scan_logs_first) simp_all
next
  assume "\<forall>entry \<in> set ls. \<not> streaming_request entry"
  then show "scan_logs ls = None" by (rule scan_logs_none)
next
  let ?b = "browser e (cfg_url config)"
  assume a: "session_reaches_scan ?b \<and> (\<forall>entry \<in> set (logs ?b). \<not> streaming_request entry)"
  then have "scan_logs (logs ?b) = None" by (intro scan_logs_none) simp
  with a have "snd (extract_streaming_url ?b (cfg_url config))
      = Inr (None, metadata_from_heading (h1_text ?b) (metadata_from_url (cfg_url config)))"
    by (simp add: extract_reaches_scan)
  then show "audiomack_download e self config =
              (report_progress
                 (new_progress\<lparr>dp_status := u ''downloading'',
                    dp_message := u ''Iniciando descarga de Audiomack...''\<rparr>) @
               fst (extract_streaming_url ?b (cfg_url config)),
               self, Inl (Exception (u ''No se pudo obtener la URL de streaming.'')))"
    by (rule audiomack_no_streaming_url)
qed

lemma marker_in_examples:
  "py_in (u ''music.audiomack.com'') (u ''https://music.audiomack.com/stream/a.m4a'')"
  "py_in (u ''music.audiomack.com'') (u ''https://music.audiomack.com/stream/b.mp3'')"
  "py_in (u ''music.audiomack.com'') (u ''https://music.audiomack.com/stream/track.m4a'')"
  "\<not> py_in (u ''music.audiomack.com'') (u ''https://example.org/x'')"
  by (simp_all add: py_in_def u_def sublist_code)

lemma method_neq:
  "u ''Network.requestIntercepted'' \<noteq> u ''Network.requestWillBeSent''"
  "u ''Network.responseReceived'' \<noteq> u ''Network.requestWillBeSent''"
  by (simp_all add: u_def)

theorem scan_returns_first_streaming_request_witness:
  "scan_logs (logs example_session) = Some (u ''https://music.audiomack.com/stream/track.m4a'')
   \<and> scan_logs intercepted_only_log = None
   \<and> snd (snd (audiomack_download no_stream_env (new_downloader AudiomackDownloader) scenario_D))
       = Inl (Exception (u ''No se pudo obtener la URL de streaming.''))"
proof (intro conjI)
  let ?ls = "logs example_session"
  have hit: "streaming_request (?ls ! 2)"
    by (simp add: example_session_def marker_in_examples)
  have before: "\<forall>j < 2. \<not> streaming_request (?ls ! j)"
    by (simp add: example_session_def less_Suc_eq numeral_2_eq_2)
  have "scan_logs ?ls = request_url (?ls ! 2)"
    using scan_returns_first_streaming_request
            [of ?ls, THEN conjunct1, rule_format, of 2] hit before
    by (simp add: example_session_def)
  then show "scan_logs ?ls = Some (u ''https://music.audiomack.com/stream/track.m4a'')"
    by (simp add: example_session_def)
next
  have none: "\<forall>entry \<in> set intercepted_only_log. \<not> streaming_request entry"
    by (simp add: intercepted_only_log_def method_neq)
  then show "scan_logs intercepted_only_log = None"
    using scan_returns_first_streaming_request
            [of intercepted_only_log, THEN conjunct2, THEN conjunct1]
    by blast
next
  let ?b = "browser no_stream_env (cfg_url scenario_D)"
  have b: "?b = example_session\<lparr>logs := intercepted_only_log\<rparr>"
    by (simp add: no_stream_env_def example_env_def)
  have reach: "session_reaches_scan ?b"
    by (simp add: b session_reaches_scan_def example_session_def)
  have none: "\<forall>entry \<in> set (logs ?b). \<not> streaming_request entry"
    by (simp add: b intercepted_only_log_def method_neq)
  show "snd (snd (audiomack_download no_stream_env (new_downloader AudiomackDownloader)
                    scenario_D))
       = Inl (Exception (u ''No se pudo obtener la URL de streaming.''))"
    using scan_returns_first_streaming_request
            [of _ no_stream_env scenario_D "new_downloader AudiomackDownloader",
             THEN conjunct2, THEN conjunct2] reach none
    by simp
qed

text \<open>
  The claim as stated, "the first entry whose request URL contains the marker", fails on a
  log whose first such entry is not a \<^verbatim>\<open>Network.requestWillBeSent\<close> message: the scan
  passes over it and returns the URL of the later request.
\<close>

theorem scan_skips_other_methods_counterexample:
  "first_marked_url intercepted_first_log = Some (u ''https://music.audiomack.com/stream/a.m4a'')
   \<and> scan_logs intercepted_first_log = Some (u ''https://music.audiomack.com/stream/b.mp3'')
   \<and> u ''https://music.audiomack.com/stream/a.m4a''
       \<noteq> u ''https://music.audiomack.com/stream/b.mp3''"
proof (intro conjI)
  show "first_marked_url intercepted_first_log
          = Some (u ''https://music.audiomack.com/stream/a.m4a'')"
    by (simp add: intercepted_first_log_def marker_in_examples)
  show "scan_logs intercepted_first_log = Some (u ''https://music.audiomack.com/stream/b.mp3'')"
    by (simp add: intercepted_first_log_def marker_in_examples method_neq)
  show "u ''https://music.audiomack.com/stream/a.m4a''
       \<noteq> u ''https://music.audiomack.com/stream/b.mp3''"
    by (simp add: u_def)
qed

section \<open>The filename sanitizer\<close>

lemma isspace_32: "isspace 32"
  by (simp add: isspace_def)

lemma sub_spaces_spaces: "c \<in> set (sub_spaces s) \<Longrightarrow> isspace c \<Longrightarrow> c = 32"
  by (induction s rule: sub_spaces.induct) (auto split: if_splits)

lemma sub_spaces_set: "c \<in> set (sub_spaces s) \<Longrightarrow> c = 32 \<or> c \<in> set s"
  by (induction s rule: sub_spaces.induct) (auto split: if_splits dest: set_dropWhileD)

lemma sub_spaces_dropWhile_hd:
  "sub_spaces (dropWhile isspace cs) = [] \<or> \<not> isspace (hd (sub_spaces (dropWhile isspace cs)))"
proof (cases "dropWhile isspace cs")
  case Nil
  then show ?thesis by (simp only: sub_spaces.simps simp_thms)
next
  case (Cons d ds)
  then have "\<not> isspace d" by (metis hd_dropWhile list.sel(1) list.distinct(1))
  with Cons show ?thesis by simp
qed

lemma sub_spaces_no_double: "\<not> sublist [32, 32] (sub_spaces s)"
proof (induction s rule: sub_spaces.induct)
  case 1
  then show ?case by simp
next
  case (2 c cs)
  show ?case
  proof (cases "isspace c")
    case True
    let ?r = "sub_spaces (dropWhile isspace cs)"
    from True 2 have ih: "\<not> sublist [32, 32] ?r" by simp
    have "\<not> prefix [32, 32] (32 # ?r)"
      using sub_spaces_dropWhile_hd [of cs] isspace_32 by (cases ?r) auto
    with ih True show ?thesis by (simp add: sublist_Cons_right)
  next
    case False
    with 2 have ih: "\<not> sublist [32, 32] (sub_spaces cs)" by simp
    from False isspace_32 have "c \<noteq> 32" by auto
    with ih False show ?thesis by (simp add: sublist_Cons_right)
  qed
qed

lemma single_spaced_sub_spaces: "single_spaced (sub_spaces s)"
  unfolding single_spaced_def using sub_spaces_spaces sub_spaces_no_double by blast

lemma single_spaced_sublist: "single_spaced t \<Longrightarrow> sublist s t \<Longrightarrow> single_spaced s"
  unfolding single_spaced_def
  by (meson set_mono_sublist sublist_order.order_trans subsetD)

lemma sub_spaces_fixed: "single_spaced s \<Longrightarrow> sub_spaces s = s"
proof (induction s)
  case Nil
  then show ?case by simp
next
  case (Cons c cs)
  from Cons.prems have tl: "single_spaced cs"
    by (rule single_spaced_sublist) (simp add: sublist_Cons_right)
  then have ih: "sub_spaces cs = cs" by (rule Cons.IH)
  show ?case
  proof (cases "isspace c")
    case False
    with ih show ?thesis by simp
  next
    case True
    with Cons.prems have c: "c = 32" by (simp add: single_spaced_def)
    have "dropWhile isspace cs = cs"
    proof (cases cs)
      case Nil
      then show ?thesis by simp
    next
      case (Cons d ds)
      have "\<not> isspace d"
      proof
        assume sp: "isspace d"
        with Cons.prems \<open>cs = d # ds\<close> have "d = 32" by (simp add: single_spaced_def)
        with c \<open>cs = d # ds\<close> have "prefix [32, 32] (c # cs)" by simp
        then have "sublist [32, 32] (c # cs)" by (rule prefix_imp_sublist)
        with Cons.prems show False by (simp add: single_spaced_def)
      qed
      with Cons show ?thesis by simp
    qed
    with True ih c show ?thesis by simp
  qed
qed

text \<open>\<open>py_strip\<close> keeps a contiguous part that neither starts nor ends with whitespace.\<close>

lemma py_strip_prefix: "prefix (py_strip s) (dropWhile isspace s)"
proof -
  let ?b = "dropWhile isspace s"
  have "py_strip s @ rev (takeWhile isspace (rev ?b))
          = rev (takeWhile isspace (rev ?b) @ dropWhile isspace (rev ?b))"
    by (simp only: py_strip_def rev_append)
  also have "\<dots> = rev (rev ?b)" by (simp only: takeWhile_dropWhile_id)
  also have "\<dots> = ?b" by (simp only: rev_rev_ident)
  finally have "?b = py_strip s @ rev (takeWhile isspace (rev ?b))" by (rule sym)
  then show ?thesis by (rule prefixI)
qed

lemma py_strip_sublist: "sublist (py_strip s) s"
proof -
  have "sublist (py_strip s) (dropWhile isspace s)"
    using py_strip_prefix by (rule prefix_imp_sublist)
  moreover have "sublist (dropWhile isspace s) s"
    by (rule suffix_imp_sublist) (rule suffix_dropWhile)
  ultimately show ?thesis by (rule sublist_order.order_trans)
qed

lemma py_strip_hd: "py_strip s \<noteq> [] \<Longrightarrow> \<not> isspace (hd (py_strip s))"
proof -
  assume ne: "py_strip s \<noteq> []"
  from py_strip_prefix [of s] obtain r where eq: "dropWhile isspace s = py_strip s @ r"
    by (auto simp: prefix_def)
  with ne have "hd (py_strip s) = hd (dropWhile isspace s)" by simp
  moreover from eq ne have "dropWhile isspace s \<noteq> []" by auto
  ultimately show ?thesis by (simp add: hd_dropWhile)
qed

lemma py_strip_last: "py_strip s \<noteq> [] \<Longrightarrow> \<not> isspace (last (py_strip s))"
proof -
  assume ne: "py_strip s \<noteq> []"
  let ?d = "dropWhile isspace (rev (dropWhile isspace s))"
  from ne have d: "?d \<noteq> []" by (simp add: py_strip_def)
  have "last (py_strip s) = hd ?d" using d by (simp add: py_strip_def last_rev)
  with d show ?thesis by (simp add: hd_dropWhile)
qed

lemma py_strip_fixed:
  "s = [] \<or> (\<not> isspace (hd s) \<and> \<not> isspace (last s)) \<Longrightarrow> py_strip s = s"
proof (cases s)
  case Nil
  then show ?thesis by (simp add: py_strip_def)
next
  case (Cons c cs)
  assume "s = [] \<or> (\<not> isspace (hd s) \<and> \<not> isspace (last s))"
  with Cons have h: "\<not> isspace c" and l: "\<not> isspace (last s)" by auto
  from h Cons have a: "dropWhile isspace s = s" by simp
  have "rev s \<noteq> []" using Cons by simp
  moreover have "hd (rev s) = last s" using Cons by (simp add: hd_rev)
  ultimately have "dropWhile isspace (rev s) = rev s"
    using l by (simp only: dropWhile_eq_self_iff simp_thms)
  with a show ?thesis by (simp add: py_strip_def)
qed

lemma clean_unfold:
  "clean s = py_strip (sub_spaces (sub_illegal (py_replace1 13 32 (py_replace1 10 32 s))))"
  by (simp add: clean_def)

lemma single_spaced_clean: "single_spaced (clean s)"
  unfolding clean_unfold
  by (rule single_spaced_sublist [OF single_spaced_sub_spaces py_strip_sublist])

lemma clean_no_illegal: "c \<in> set (clean s) \<Longrightarrow> c \<notin> set ILLEGAL"
proof -
  assume "c \<in> set (clean s)"
  then have "c \<in> set (sub_spaces (sub_illegal (py_replace1 13 32 (py_replace1 10 32 s))))"
    unfolding clean_unfold using set_mono_sublist [OF py_strip_sublist] by blast
  then have "c = 32 \<or> c \<in> set (sub_illegal (py_replace1 13 32 (py_replace1 10 32 s)))"
    by (rule sub_spaces_set)
  then show ?thesis
    by (auto simp: sub_illegal_def ILLEGAL_def split: if_splits)
qed

lemma clean_only_plain_spaces: "c \<in> set (clean s) \<Longrightarrow> isspace c \<Longrightarrow> c = 32"
  using single_spaced_clean [of s] by (simp add: single_spaced_def)

lemma clean_no_line_break: "c \<in> set (clean s) \<Longrightarrow> c \<notin> set LINE_BREAKS"
proof
  assume mem: "c \<in> set (clean s)" and lb: "c \<in> set LINE_BREAKS"
  have "\<forall>x \<in> set LINE_BREAKS. isspace x \<and> x \<noteq> 32"
    by (simp add: LINE_BREAKS_def isspace_def)
  with lb have "isspace c \<and> c \<noteq> 32" by blast
  with mem show False by (auto dest: clean_only_plain_spaces)
qed

lemma clean_ends: "clean s = [] \<or> (\<not> isspace (hd (clean s)) \<and> \<not> isspace (last (clean s)))"
  unfolding clean_unfold using py_strip_hd py_strip_last by blast

lemma clean_fixed:
  assumes sp: "single_spaced a"
    and il: "\<forall>c \<in> set a. c \<notin> set ILLEGAL"
    and ends: "a = [] \<or> (\<not> isspace (hd a) \<and> \<not> isspace (last a))"
  shows "clean a = a"
proof -
  have nl: "\<forall>c \<in> set a. c \<noteq> 10 \<and> c \<noteq> 13"
  proof
    fix c assume "c \<in> set a"
    with sp have "isspace c \<longrightarrow> c = 32" by (simp add: single_spaced_def)
    then show "c \<noteq> 10 \<and> c \<noteq> 13" by (auto simp: isspace_def)
  qed
  then have r1: "py_replace1 10 32 a = a"
    unfolding py_replace1_def by (intro map_idI) auto
  from nl have r2: "py_replace1 13 32 a = a"
    unfolding py_replace1_def by (intro map_idI) auto
  from il have r3: "sub_illegal a = a"
    unfolding sub_illegal_def by (intro map_idI) auto
  from sp have r4: "sub_spaces a = a" by (rule sub_spaces_fixed)
  from ends have r5: "py_strip a = a" by (rule py_strip_fixed)
  show ?thesis by (simp only: clean_unfold r1 r2 r3 r4 r5)
qed

text \<open>
  Claim C6.  The sanitizer \<open>clean\<close> is idempotent; for every input its output contains none
  of the characters \<^verbatim>\<open><>:"/\|?*\<close> and no line break (no line boundary character at all,
  LF and CR among them); and the title and the artist that \<open>download\<close> stores, cleaned and
  capped, are at most 100 and at most 50 characters long.
\<close>

theorem clean_idempotent_and_safe:
  "clean (clean s) = clean s
   \<and> set (clean s) \<inter> set ILLEGAL = {}
   \<and> set (clean s) \<inter> set LINE_BREAKS = {}
   \<and> length (md_title (sanitize_metadata m)) \<le> 100
   \<and> length (md_artist (sanitize_metadata m)) \<le> 50"
proof (intro conjI)
  show "clean (clean s) = clean s"
    using single_spaced_clean clean_ends clean_no_illegal by (intro clean_fixed) blast+
  show "set (clean s) \<inter> set ILLEGAL = {}"
    using clean_no_illegal by blast
  show "set (clean s) \<inter> set LINE_BREAKS = {}"
    using clean_no_line_break by blast
  show "length (md_title (sanitize_metadata m)) \<le> 100"
    by (simp add: sanitize_metadata_def)
  show "length (md_artist (sanitize_metadata m)) \<le> 50"
    by (simp add: sanitize_metadata_def)
qed

section \<open>Audiomack: the conversion to mp3\<close>






















section \<open>The engine hooks\<close>

lemma progress_hook_downloading:
  "d_status d = Some (u ''downloading'') \<Longrightarrow>
   progress_hook e d =
     [Report
        \<lparr>dp_percent =
           (if num_or (d_total_bytes d) (num_or (d_total_bytes_estimate d) 0) > 0
            then (case d_downloaded_bytes d of Some n \<Rightarrow> n | None \<Rightarrow> 0) * 100
                 / num_or (d_total_bytes d) (num_or (d_total_bytes_estimate d) 0)
            else 0),
         dp_speed = py_strip (get_str (d_speed_str d) []),
         dp_eta = py_strip (get_str (d_eta_str d) []),
         dp_status = u ''downloading'',
         dp_message = u ''Descargando'' @ [8230, 32] @
           format_1f e
             (if num_or (d_total_bytes d) (num_or (d_total_bytes_estimate d) 0) > 0
              then (case d_downloaded_bytes d of Some n \<Rightarrow> n | None \<Rightarrow> 0) * 100
                   / num_or (d_total_bytes d) (num_or (d_total_bytes_estimate d) 0)
              else 0) @ u ''%''\<rparr>]"
  by (simp add: progress_hook_def report_progress_def get_str_def Let_def)

lemma progress_hook_finished:
  "d_status d = Some (u ''finished'') \<Longrightarrow>
   progress_hook e d =
     [Report \<lparr>dp_percent = 95, dp_speed = [], dp_eta = [], dp_status = u ''processing'',
              dp_message = u ''Procesando archivo'' @ [8230]\<rparr>]"
  by (simp add: progress_hook_def report_progress_def new_progress_def get_str_def)

lemma progress_hook_error:
  "d_status d = Some (u ''error'') \<Longrightarrow>
   progress_hook e d =
     [Report \<lparr>dp_percent = 0, dp_speed = [], dp_eta = [], dp_status = u ''error'',
              dp_message = u ''Error en la descarga''\<rparr>]"
  by (simp add: progress_hook_def report_progress_def new_progress_def get_str_def)

lemma postprocessor_hook_started:
  "pp_status p = Some (u ''started'') \<Longrightarrow>
   postprocessor_hook p =
     [Report \<lparr>dp_percent = 97, dp_speed = [], dp_eta = [], dp_status = u ''processing'',
              dp_message =
                (if py_in (u ''ExtractAudio'') (get_str (pp_postprocessor p) [])
                 then u ''Extrayendo audio'' @ [8230]
                 else if py_in (u ''Metadata'') (get_str (pp_postprocessor p) [])
                 then u ''A'' @ [241] @ u ''adiendo metadatos'' @ [8230]
                 else u ''Procesando'' @ [8230])\<rparr>]"
  by (simp add: postprocessor_hook_def report_progress_def new_progress_def get_str_def Let_def)

lemma postprocessor_hook_finished:
  "pp_status p = Some (u ''finished'') \<Longrightarrow>
   postprocessor_hook p =
     [Report \<lparr>dp_percent = 99, dp_speed = [], dp_eta = [], dp_status = u ''processing'',
              dp_message = u ''Finalizando'' @ [8230]\<rparr>]"
  by (simp add: postprocessor_hook_def report_progress_def new_progress_def get_str_def)

text \<open>
  Claim C8.  The progress hook, on a "downloading" event, reports one record with status
  "downloading" whose percent is downloaded * 100 / total when the total (the engine's
  \<open>total_bytes\<close>, else its \<open>total_bytes_estimate\<close>) is positive and 0 otherwise; on
  "finished" it reports percent 95 with status "processing"; on "error" it reports status
  "error" with the fixed message "Error en la descarga" and the default percent.  The
  post-processor hook reports percent 97 on "started", with the message chosen by the name of
  the running post-processor (ExtractAudio, Metadata, or any other), and percent 99 on
  "finished".
\<close>

theorem hooks_report_fixed_markers:
  "(d_status d = Some (u ''downloading'') \<longrightarrow>
      (\<exists>r. progress_hook e d = [Report r]
         \<and> dp_status r = u ''downloading''
         \<and> dp_percent r =
             (if num_or (d_total_bytes d) (num_or (d_total_bytes_estimate d) 0) > 0
              then (case d_downloaded_bytes d of Some n \<Rightarrow> n | None \<Rightarrow> 0) * 100
                   / num_or (d_total_bytes d) (num_or (d_total_bytes_estimate d) 0)
              else 0)))
   \<and> (d_status d = Some (u ''finished'') \<longrightarrow>
        progress_hook e d =
          [Report \<lparr>dp_percent = 95, dp_speed = [], dp_eta = [], dp_status = u ''processing'',
                   dp_message = u ''Procesando archivo'' @ [8230]\<rparr>])
   \<and> (d_status d = Some (u ''error'') \<longrightarrow>
        progress_hook e d =
          [Report \<lparr>dp_percent = 0, dp_speed = [], dp_eta = [], dp_status = u ''error'',
                   dp_message = u ''Error en la descarga''\<rparr>])
   \<and> (pp_status p = Some (u ''started'') \<longrightarrow>
        postprocessor_hook p =
          [Report \<lparr>dp_percent = 97, dp_speed = [], dp_eta = [], dp_status = u ''processing'',
                   dp_message =
                     (if py_in (u ''ExtractAudio'') (get_str (pp_postprocessor p) [])
                      then u ''Extrayendo audio'' @ [8230]
                      else if py_in (u ''Metadata'') (get_str (pp_postprocessor p) [])
                      then u ''A'' @ [241] @ u ''adiendo metadatos'' @ [8230]
                      else u ''Procesando'' @ [8230])\<rparr>])
   \<and> (pp_status p = Some (u ''finished'') \<longrightarrow>
        postprocessor_hook p =
          [Report \<lparr>dp_percent = 99, dp_speed = [], dp_eta = [], dp_status = u ''processing'',
                   dp_message = u ''Finalizando'' @ [8230]\<rparr>])"
proof (intro conjI impI)
  assume "d_status d = Some (u ''downloading'')"
  then show "\<exists>r. progress_hook e d = [Report r]
         \<and> dp_status r = u ''downloading''
         \<and> dp_percent r =
             (if num_or (d_total_bytes d) (num_or (d_total_bytes_estimate d) 0) > 0
              then (case d_downloaded_bytes d of Some n \<Rightarrow> n | None \<Rightarrow> 0) * 100
                   / num_or (d_total_bytes d) (num_or (d_total_bytes_estimate d) 0)
              else 0)"
    by (simp add: progress_hook_downloading)
qed (simp_all add: progress_hook_finished progress_hook_error postprocessor_hook_started
      postprocessor_hook_finished)

theorem hooks_report_fixed_markers_witness:
  "map dp_percent (reported (progress_hook example_env
       \<lparr>d_status = Some (u ''downloading''), d_total_bytes = None,
        d_total_bytes_estimate = Some 400, d_downloaded_bytes = Some 100,
        d_speed_str = None, d_eta_str = None\<rparr>)) = [25]
   \<and> map dp_percent (reported (progress_hook example_env
       \<lparr>d_status = Some (u ''finished''), d_total_bytes = None,
        d_total_bytes_estimate = None, d_downloaded_bytes = None,
        d_speed_str = None, d_eta_str = None\<rparr>)) = [95]
   \<and> map dp_status (reported (progress_hook example_env
       \<lparr>d_status = Some (u ''error''), d_total_bytes = None,
        d_total_bytes_estimate = None, d_downloaded_bytes = None,
        d_speed_str = None, d_eta_str = None\<rparr>)) = [u ''error'']
   \<and> map dp_message (reported (postprocessor_hook
       \<lparr>pp_status = Some (u ''started''), pp_postprocessor = Some (u ''Metadata'')\<rparr>))
       = [u ''A'' @ [241] @ u ''adiendo metadatos'' @ [8230]]
   \<and> map dp_percent (reported (postprocessor_hook
       \<lparr>pp_status = Some (u ''finished''), pp_postprocessor = None\<rparr>)) = [99]"
proof (intro conjI)
  let ?d = "\<lparr>d_status = Some (u ''downloading''), d_total_bytes = None,
        d_total_bytes_estimate = Some 400, d_downloaded_bytes = Some 100,
        d_speed_str = None, d_eta_str = None\<rparr>"
  from hooks_report_fixed_markers [of ?d example_env]
  obtain r where "progress_hook example_env ?d = [Report r]" and "dp_percent r = 25"
    by (auto simp: num_or_def)
  then show "map dp_percent (reported (progress_hook example_env ?d)) = [25]" by simp
next
  let ?d = "\<lparr>d_status = Some (u ''finished''), d_total_bytes = None,
        d_total_bytes_estimate = None, d_downloaded_bytes = None,
        d_speed_str = None, d_eta_str = None\<rparr>"
  from hooks_report_fixed_markers [of ?d example_env]
  show "map dp_percent (reported (progress_hook example_env ?d)) = [95]" by simp
next
  let ?d = "\<lparr>d_status = Some (u ''error''), d_total_bytes = None,
        d_total_bytes_estimate = None, d_downloaded_bytes = None,
        d_speed_str = None, d_eta_str = None\<rparr>"
  from hooks_report_fixed_markers [of ?d example_env]
  show "map dp_status (reported (progress_hook example_env ?d)) = [u ''error'']" by simp
next
  let ?p = "\<lparr>pp_status = Some (u ''started''), pp_postprocessor = Some (u ''Metadata'')\<rparr>"
  have "\<not> py_in (u ''ExtractAudio'') (u ''Metadata'')"
    by (simp add: py_in_def u_def sublist_code)
  moreover have "py_in (u ''Metadata'') (u ''Metadata'')"
    by (simp add: py_in_def)
  ultimately show "map dp_message (reported (postprocessor_hook ?p))
       = [u ''A'' @ [241] @ u ''adiendo metadatos'' @ [8230]]"
    using hooks_report_fixed_markers [of _ _ ?p] by (simp add: get_str_def)
next
  let ?p = "\<lparr>pp_status = Some (u ''finished''), pp_postprocessor = None\<rparr>"
  from hooks_report_fixed_markers [of _ _ ?p]
  show "map dp_percent (reported (postprocessor_hook ?p)) = [99]" by simp
qed

section \<open>The range of the reported records\<close>


text \<open>With a callback, the callback receives exactly the reported records, in order.\<close>

lemma callback_receives_reported:
  "callback_calls True trace = reported trace" "callback_calls False trace = []"
  by (simp_all add: callback_calls_def)





subsection \<open>The hooks\<close>








subsection \<open>The generic download\<close>






subsection \<open>The Audiomack download\<close>





















section \<open>Audiomack: what the download reads of its configuration\<close>

text \<open>
  Claim C10.  The Audiomack download reads only the URL, the output directory and the output
  format of its configuration: two configurations that agree on these three (and so differ
  at most in \<open>cookies_file\<close> and \<open>ffmpeg_path\<close>) give the same trace of reports and calls,
  the same instance state and the same result, in every environment.  In particular the
  command line of the transcoder and the requests to the browser and to the HTTP server do not
  depend on the configured tool path or cookie file.
\<close>

theorem audiomack_ignores_cookies_and_tool_path:
  "cfg_url c1 = cfg_url c2 \<and> cfg_output_dir c1 = cfg_output_dir c2
     \<and> cfg_output_format c1 = cfg_output_format c2
   \<longrightarrow> audiomack_download e self c1 = audiomack_download e self c2"
proof
  assume same: "cfg_url c1 = cfg_url c2 \<and> cfg_output_dir c1 = cfg_output_dir c2
     \<and> cfg_output_format c1 = cfg_output_format c2"
  then have a: "cfg_url c1 = cfg_url c2" and b: "cfg_output_dir c1 = cfg_output_dir c2"
    and c: "cfg_output_format c1 = cfg_output_format c2" by simp_all
  show "audiomack_download e self c1 = audiomack_download e self c2"
    unfolding audiomack_download_def convert_to_mp3_def by (simp only: a b c)
qed

theorem audiomack_ignores_cookies_and_tool_path_witness:
  "audiomack_download example_env (new_downloader AudiomackDownloader) scenario_D
     = audiomack_download example_env (new_downloader AudiomackDownloader)
         (scenario_D\<lparr>cfg_cookies_file := None, cfg_ffmpeg_path := None\<rparr>)"
  using audiomack_ignores_cookies_and_tool_path
          [of scenario_D "scenario_D\<lparr>cfg_cookies_file := None, cfg_ffmpeg_path := None\<rparr>"
              example_env "new_downloader AudiomackDownloader"]
  by simp


end
